theory Spec2Isabelle
  imports Main
begin

section \<open>RFC 7807 problem details for Go (package \<open>problem\<close>)\<close>

text \<open>
  A shallow embedding of \<^verbatim>\<open>problem.go\<close> and of the validation extension.
  Go's \<^verbatim>\<open>int\<close> is modelled as \<open>int\<close> (no arithmetic is done on a status), Go strings as
  \<open>string\<close>. Objects reached through pointers (\<^verbatim>\<open>*ProblemDetails\<close>,
  \<^verbatim>\<open>*ValidationProblem\<close>) live in an explicit store, so that a method which mutates its
  receiver and returns it can be seen to return the same address.
\<close>

subsection \<open>Error values and the data model\<close>

type_synonym addr = nat

text \<open>
  The non-nil values an \<^verbatim>\<open>error\<close> interface can hold here, by dynamic type:
  \<^verbatim>\<open>*errors.errorString\<close> (made by \<^verbatim>\<open>errors.New\<close> and by \<^verbatim>\<open>fmt.Errorf\<close> without
  \<^verbatim>\<open>%w\<close>), \<^verbatim>\<open>*fmt.wrapError\<close> (made by \<^verbatim>\<open>fmt.Errorf\<close> with one \<^verbatim>\<open>%w\<close>), \<^verbatim>\<open>*fmt.wrapErrors\<close>
  (made by \<^verbatim>\<open>fmt.Errorf\<close> with several \<^verbatim>\<open>%w\<close>, Go 1.20 and later), and pointers to the two
  types of this package. The nil interface is \<open>None\<close> of \<open>go_error option\<close>.
\<close>

datatype go_error =
    ErrorString string
  | WrapError string go_error
  | WrapErrors string "go_error list"
  | ProblemPtr addr
  | ValidationPtr addr

record ProblemDetails =
  Status :: int
  Title :: string
  Detail :: string
  Type :: string
  Instance :: string
  wrappedError :: "go_error option"

text \<open>The field \<^verbatim>\<open>Error\<close> of \<^verbatim>\<open>ValidationError\<close> is called \<open>ErrorReason\<close> here, the name
  \<open>Error\<close> being kept for the package function.\<close>

record ValidationError =
  FieldName :: string
  ErrorReason :: string

text \<open>\<^verbatim>\<open>ValidationProblem\<close> embeds \<^verbatim>\<open>ProblemDetails\<close>: the record extends it, which
  promotes the fields as Go does.\<close>

record ValidationProblem = ProblemDetails +
  ValidationErrors :: "ValidationError list"

record heap =
  problems :: "addr \<rightharpoonup> ProblemDetails"
  validations :: "addr \<rightharpoonup> ValidationProblem"
  next_addr :: addr

text \<open>
  Ways a call does not return normally. \<open>NilDereference\<close> is Go's run-time panic for a method
  called through a pointer that holds no object, or on the nil interface.
  \<open>InvalidWriteHeaderCode\<close> is the panic of a response writer that is given a status code
  outside 100 to 999. \<open>FormatNotModelled\<close> is not a Go behaviour: it marks a call of \<^verbatim>\<open>fmt.Errorf\<close> whose format
  string or operands lie outside the part of package \<^verbatim>\<open>fmt\<close> that is modelled below, about
  which nothing is said.
\<close>

datatype abort = NilDereference | InvalidWriteHeaderCode int | FormatNotModelled

definition ContentProblemDetails :: string where
  "ContentProblemDetails = ''application/problem+json''"

definition StatusBadRequest :: int where
  "StatusBadRequest = 400"


subsection \<open>The status catalog\<close>

text \<open>The map literal \<^verbatim>\<open>typeForStatus\<close>, the \<^verbatim>\<open>net/http\<close> constants written as their numbers
  in the order of the source.\<close>

definition typeForStatus_entries :: "(int \<times> string) list" where
  "typeForStatus_entries =
    [(400, ''Bad Request''),
     (401, ''Unauthorized''),
     (402, ''Payment Required''),
     (403, ''Forbidden''),
     (404, ''Not Found''),
     (405, ''Method Not Allowed''),
     (406, ''Not Acceptable''),
     (407, ''Proxy Authentication Required''),
     (408, ''Request Timeout''),
     (409, ''Conflict''),
     (410, ''Gone''),
     (411, ''Length Required''),
     (412, ''Precondition Failed''),
     (413, ''Payload Too Large''),
     (414, ''URI Too Long''),
     (415, ''Unsupported Media Type''),
     (416, ''Range Not Satisfiable''),
     (417, ''Expectation Failed''),
     (418, ''I'm a teapot''),
     (421, ''Misdirected Request''),
     (422, ''Unprocessable Entity''),
     (423, ''Locked''),
     (424, ''Failed Dependency''),
     (425, ''Too Early''),
     (426, ''Upgrade Required''),
     (428, ''Precondition Required''),
     (429, ''Too Many Requests''),
     (431, ''Request Header Fields Too Large''),
     (451, ''Unavailable For Legal Reasons''),
     (499, ''Client Closed Request''),
     (500, ''Internal Server Error''),
     (501, ''Not Implemented''),
     (502, ''Bad Gateway''),
     (503, ''Service Unavailable''),
     (504, ''Gateway Timeout''),
     (505, ''HTTP Version Not Supported''),
     (506, ''Variant Also Negotiates''),
     (507, ''Insufficient Storage''),
     (508, ''Loop Detected''),
     (510, ''Not Extended''),
     (511, ''Network Authentication Required''),
     (599, ''Network Connect Timeout New'')]"

definition typeForStatus :: "int \<rightharpoonup> string" where
  "typeForStatus = map_of typeForStatus_entries"

text \<open>Indexing a Go map with a key it does not hold gives the zero value, the empty string.\<close>

definition typeForStatus_index :: "int \<Rightarrow> string" where
  "typeForStatus_index status = (case typeForStatus status of None \<Rightarrow> [] | Some t \<Rightarrow> t)"

subsection \<open>\<^verbatim>\<open>strconv.Itoa\<close>\<close>

definition digit_char :: "nat \<Rightarrow> char" where
  "digit_char d = ''0123456789'' ! d"

fun digits :: "nat \<Rightarrow> string" where
  "digits n = (if n < 10 then [digit_char n] else digits (n div 10) @ [digit_char (n mod 10)])"

declare digits.simps [simp del]

definition Itoa :: "int \<Rightarrow> string" where
  "Itoa i = (if i < 0 then CHR ''-'' # digits (nat (- i)) else digits (nat i))"

text \<open>Reading a decimal numeral back, to say what the digits of \<open>Itoa\<close> mean.\<close>

definition digit_val :: "char \<Rightarrow> nat" where
  "digit_val c = of_char c - 48"

definition decimal_val :: "string \<Rightarrow> nat" where
  "decimal_val s = foldl (\<lambda>acc c. 10 * acc + digit_val c) 0 s"

definition Atoi :: "string \<Rightarrow> int" where
  "Atoi s = (case s of [] \<Rightarrow> 0
             | c # cs \<Rightarrow> if c = CHR ''-'' then - int (decimal_val cs) else int (decimal_val s))"

subsection \<open>The fluent API\<close>

text \<open>\<^verbatim>\<open>New\<close> returns the address of a composite literal: the literal, then its allocation.\<close>

definition alloc_problem :: "heap \<Rightarrow> ProblemDetails \<Rightarrow> heap \<times> addr" where
  "alloc_problem h obj =
    (h\<lparr>problems := (problems h)(next_addr h \<mapsto> obj), next_addr := Suc (next_addr h)\<rparr>, next_addr h)"

definition New_literal :: "int \<Rightarrow> ProblemDetails" where
  "New_literal status =
    \<lparr>Status = status,
     Title = typeForStatus_index status,
     Detail = [],
     Type = ''https://httpstatuses.com/'' @ Itoa status,
     Instance = [],
     wrappedError = None\<rparr>"

definition New :: "heap \<Rightarrow> int \<Rightarrow> heap \<times> addr" where
  "New h status = alloc_problem h (New_literal status)"

definition GetStatus :: "'a ProblemDetails_scheme \<Rightarrow> int" where
  "GetStatus pd = Status pd"

definition ProblemDetails_Error :: "'a ProblemDetails_scheme \<Rightarrow> string" where
  "ProblemDetails_Error pd = Title pd"

definition Unwrap :: "'a ProblemDetails_scheme \<Rightarrow> go_error option" where
  "Unwrap pd = wrappedError pd"

text \<open>The method \<^verbatim>\<open>Error()\<close> of an \<^verbatim>\<open>error\<close> value, dispatched on its dynamic type. The
  methods of \<^verbatim>\<open>ProblemDetails\<close> have value receivers, so a call through a pointer reads the
  object first.\<close>

fun error_Error :: "heap \<Rightarrow> go_error \<Rightarrow> abort + string" where
  "error_Error h (ErrorString s) = Inr s"
| "error_Error h (WrapError s e) = Inr s"
| "error_Error h (WrapErrors s es) = Inr s"
| "error_Error h (ProblemPtr p) =
     (case problems h p of None \<Rightarrow> Inl NilDereference | Some pd \<Rightarrow> Inr (ProblemDetails_Error pd))"
| "error_Error h (ValidationPtr p) =
     (case validations h p of None \<Rightarrow> Inl NilDereference | Some vp \<Rightarrow> Inr (ProblemDetails_Error vp))"

text \<open>\<^verbatim>\<open>errors.Unwrap\<close>: the result of the value's \<^verbatim>\<open>Unwrap() error\<close> method when its type
  has one, nil otherwise. \<^verbatim>\<open>*fmt.wrapErrors\<close> has \<^verbatim>\<open>Unwrap() []error\<close> instead, which
  \<^verbatim>\<open>errors.Unwrap\<close> does not call.\<close>

fun errors_Unwrap :: "heap \<Rightarrow> go_error \<Rightarrow> abort + go_error option" where
  "errors_Unwrap h (ErrorString s) = Inr None"
| "errors_Unwrap h (WrapError s e) = Inr (Some e)"
| "errors_Unwrap h (WrapErrors s es) = Inr None"
| "errors_Unwrap h (ProblemPtr p) =
     (case problems h p of None \<Rightarrow> Inl NilDereference | Some pd \<Rightarrow> Inr (Unwrap pd))"
| "errors_Unwrap h (ValidationPtr p) =
     (case validations h p of None \<Rightarrow> Inl NilDereference | Some vp \<Rightarrow> Inr (Unwrap vp))"

subsection \<open>A fragment of \<^verbatim>\<open>fmt.Errorf\<close>\<close>

text \<open>
  \<^verbatim>\<open>fmt.Errorf\<close> as Go 1.20 and later have it. Operands are strings, ints, non-nil errors,
  and other values known only by the name of their type. The verbs modelled are \<^verbatim>\<open>%%\<close>,
  \<^verbatim>\<open>%v\<close>, \<^verbatim>\<open>%s\<close>, \<^verbatim>\<open>%d\<close>, \<^verbatim>\<open>%T\<close> and \<^verbatim>\<open>%w\<close>, any number of each, without flags, width
  or argument indexes, each consuming the next operand. The operands of the \<^verbatim>\<open>%w\<close> verbs
  are collected in order: none gives an \<^verbatim>\<open>*errors.errorString\<close>, one a \<^verbatim>\<open>*fmt.wrapError\<close>
  around it, several a \<^verbatim>\<open>*fmt.wrapErrors\<close>. Whatever \<^verbatim>\<open>fmt\<close> answers with a \<^verbatim>\<open>%!\<close>
  diagnostic (a missing or extra operand, a verb that does not fit its operand, a lone
  \<^verbatim>\<open>%\<close>), the other verbs, and an operand whose \<^verbatim>\<open>Error\<close> method panics are outside the
  fragment.
\<close>

datatype fmt_arg = ArgString string | ArgInt int | ArgError go_error | ArgOther string

fun type_name :: "fmt_arg \<Rightarrow> string" where
  "type_name (ArgString s) = ''string''"
| "type_name (ArgInt i) = ''int''"
| "type_name (ArgError (ErrorString s)) = ''*errors.errorString''"
| "type_name (ArgError (WrapError s e)) = ''*fmt.wrapError''"
| "type_name (ArgError (WrapErrors s es)) = ''*fmt.wrapErrors''"
| "type_name (ArgError (ProblemPtr p)) = ''*problem.ProblemDetails''"
| "type_name (ArgError (ValidationPtr p)) = ''*problem.ValidationProblem''"
| "type_name (ArgOther t) = t"

definition arg_Error :: "heap \<Rightarrow> go_error \<Rightarrow> abort + string" where
  "arg_Error h e = (case error_Error h e of Inl x \<Rightarrow> Inl FormatNotModelled | Inr m \<Rightarrow> Inr m)"

definition format_verb :: "heap \<Rightarrow> char \<Rightarrow> fmt_arg \<Rightarrow> abort + string" where
  "format_verb h verb a =
    (if verb = CHR ''T'' then Inr (type_name a)
     else if verb = CHR ''w'' then
       (case a of ArgError e \<Rightarrow> arg_Error h e | _ \<Rightarrow> Inl FormatNotModelled)
     else if verb = CHR ''v'' then
       (case a of ArgString s \<Rightarrow> Inr s | ArgInt i \<Rightarrow> Inr (Itoa i)
        | ArgError e \<Rightarrow> arg_Error h e | ArgOther t \<Rightarrow> Inl FormatNotModelled)
     else if verb = CHR ''s'' then
       (case a of ArgString s \<Rightarrow> Inr s | ArgError e \<Rightarrow> arg_Error h e
        | _ \<Rightarrow> Inl FormatNotModelled)
     else if verb = CHR ''d'' then
       (case a of ArgInt i \<Rightarrow> Inr (Itoa i) | _ \<Rightarrow> Inl FormatNotModelled)
     else Inl FormatNotModelled)"

definition emit :: "string \<Rightarrow> abort + string \<times> go_error list \<Rightarrow> abort + string \<times> go_error list" where
  "emit txt r = (case r of Inl x \<Rightarrow> Inl x | Inr (s, wrapped) \<Rightarrow> Inr (txt @ s, wrapped))"

text \<open>The formatting loop: the text produced and the operands of the \<^verbatim>\<open>%w\<close> verbs met so
  far (\<^verbatim>\<open>wrappedErrs\<close>).\<close>

fun doPrintf :: "heap \<Rightarrow> string \<Rightarrow> fmt_arg list \<Rightarrow> go_error list
                 \<Rightarrow> abort + string \<times> go_error list" where
  "doPrintf h [] args wrapped = (if args = [] then Inr ([], wrapped) else Inl FormatNotModelled)"
| "doPrintf h (c # cs) args wrapped =
     (if c \<noteq> CHR ''%'' then emit [c] (doPrintf h cs args wrapped)
      else
        (case cs of
           [] \<Rightarrow> Inl FormatNotModelled
         | verb # rest \<Rightarrow>
            (if verb = CHR ''%'' then emit ''%'' (doPrintf h rest args wrapped)
             else
               (case args of
                  [] \<Rightarrow> Inl FormatNotModelled
                | a # as \<Rightarrow>
                   (case format_verb h verb a of
                      Inl x \<Rightarrow> Inl x
                    | Inr txt \<Rightarrow>
                       (if verb = CHR ''w'' then
                          (case a of
                             ArgError e \<Rightarrow> emit txt (doPrintf h rest as (wrapped @ [e]))
                           | _ \<Rightarrow> Inl FormatNotModelled)
                        else emit txt (doPrintf h rest as wrapped)))))))"

definition fmt_Errorf :: "heap \<Rightarrow> string \<Rightarrow> fmt_arg list \<Rightarrow> abort + go_error" where
  "fmt_Errorf h fmtstr args =
    (case doPrintf h fmtstr args [] of
       Inl x \<Rightarrow> Inl x
     | Inr (s, wrapped) \<Rightarrow>
        (case wrapped of
           [] \<Rightarrow> Inr (ErrorString s)
         | [e] \<Rightarrow> Inr (WrapError s e)
         | _ \<Rightarrow> Inr (WrapErrors s wrapped)))"








subsection \<open>Fluent mutators\<close>

definition ProblemDetails_Errorf :: "heap \<Rightarrow> addr \<Rightarrow> string \<Rightarrow> fmt_arg list \<Rightarrow> abort + heap \<times> addr" where
  "ProblemDetails_Errorf h pd fmtstr args =
    (case fmt_Errorf h fmtstr args of
       Inl x \<Rightarrow> Inl x
     | Inr err \<Rightarrow>
        (case errors_Unwrap h err of
           Inl x \<Rightarrow> Inl x
         | Inr cause \<Rightarrow>
            (case problems h pd of
               None \<Rightarrow> Inl NilDereference
             | Some obj \<Rightarrow>
                (let h1 = h\<lparr>problems := (problems h)(pd \<mapsto> obj\<lparr>wrappedError := cause\<rparr>)\<rparr>
                 in case error_Error h1 err of
                      Inl x \<Rightarrow> Inl x
                    | Inr msg \<Rightarrow>
                        Inr (h1\<lparr>problems := (problems h1)(pd \<mapsto> obj\<lparr>wrappedError := cause, Detail := msg\<rparr>)\<rparr>,
                             pd)))))"

definition WithDetail :: "heap \<Rightarrow> addr \<Rightarrow> string \<Rightarrow> abort + heap \<times> addr" where
  "WithDetail h pd msg =
    (case problems h pd of
       None \<Rightarrow> Inl NilDereference
     | Some obj \<Rightarrow> Inr (h\<lparr>problems := (problems h)(pd \<mapsto> obj\<lparr>Detail := msg\<rparr>)\<rparr>, pd))"

definition WithErr :: "heap \<Rightarrow> addr \<Rightarrow> go_error option \<Rightarrow> abort + heap \<times> addr" where
  "WithErr h pd err =
    (case problems h pd of
       None \<Rightarrow> Inl NilDereference
     | Some obj \<Rightarrow>
        (let obj1 = obj\<lparr>wrappedError := err\<rparr>;
             h1 = h\<lparr>problems := (problems h)(pd \<mapsto> obj1)\<rparr>
         in if Detail obj1 = [] then
              (case err of
                 None \<Rightarrow> Inl NilDereference
               | Some e \<Rightarrow>
                  (case error_Error h1 e of
                     Inl x \<Rightarrow> Inl x
                   | Inr msg \<Rightarrow>
                       Inr (h1\<lparr>problems := (problems h1)(pd \<mapsto> obj1\<lparr>Detail := msg\<rparr>)\<rparr>, pd)))
            else Inr (h1, pd)))"

subsection \<open>JSON values and the struct tags\<close>

text \<open>
  A document is modelled as the JSON value its text denotes: what the struct tags decide
  (member names, their order, \<^verbatim>\<open>omitempty\<close>) and what the encoder does to the content of a
  string are modelled; the spelling of the text (escapes, the final newline) is not. A
  \<open>JString\<close> holds the content of the string as a reader of the text gets it.

  Go strings are byte strings. The encoder copies the bytes of a string that are valid
  UTF-8 (escaping some of them, which a reader undoes) and writes the escape of U+FFFD for every byte
  that \<^verbatim>\<open>utf8.DecodeRuneInString\<close> does not accept as the start of an encoding.
\<close>

definition in_range :: "nat \<Rightarrow> nat \<Rightarrow> char \<Rightarrow> bool" where
  "in_range lo hi c = (lo \<le> of_char c \<and> (of_char c :: nat) \<le> hi)"

text \<open>The length of an encoding by its first byte (0 where the byte starts none), and the
  range accepted for the second byte.\<close>

definition lead_size :: "char \<Rightarrow> nat" where
  "lead_size b0 =
    (if in_range 0xC2 0xDF b0 then 2
     else if in_range 0xE0 0xEF b0 then 3
     else if in_range 0xF0 0xF4 b0 then 4
     else 0)"

definition second_ok :: "char \<Rightarrow> char \<Rightarrow> bool" where
  "second_ok b0 b1 =
    (if of_char b0 = (0xE0 :: nat) then in_range 0xA0 0xBF b1
     else if of_char b0 = (0xED :: nat) then in_range 0x80 0x9F b1
     else if of_char b0 = (0xF0 :: nat) then in_range 0x90 0xBF b1
     else if of_char b0 = (0xF4 :: nat) then in_range 0x80 0x8F b1
     else in_range 0x80 0xBF b1)"

text \<open>\<^verbatim>\<open>utf8.DecodeRuneInString\<close> on a string that starts with a byte of 0x80 or more: the
  size of the encoding at the head, 0 where the decoder answers \<^verbatim>\<open>(RuneError, 1)\<close>.\<close>

definition rune_len :: "string \<Rightarrow> nat" where
  "rune_len s =
    (case s of
       [] \<Rightarrow> 0
     | b0 # rest \<Rightarrow>
        (let n = lead_size b0
         in if n = 0 \<or> length rest < n - 1 then 0
            else if \<not> second_ok b0 (rest ! 0) then 0
            else if n = 2 then 2
            else if \<not> in_range 0x80 0xBF (rest ! 1) then 0
            else if n = 3 then 3
            else if \<not> in_range 0x80 0xBF (rest ! 2) then 0
            else 4))"

definition replacement_char :: string where
  "replacement_char = [CHR 0xEF, CHR 0xBF, CHR 0xBD]"

fun json_string_content :: "string \<Rightarrow> string" where
  "json_string_content [] = []"
| "json_string_content (b # bs) =
     (if (of_char b :: nat) < 0x80 then b # json_string_content bs
      else if rune_len (b # bs) = 0 then replacement_char @ json_string_content bs
      else b # take (rune_len (b # bs) - 1) bs @ json_string_content (drop (rune_len (b # bs) - 1) bs))"

text \<open>\<^verbatim>\<open>utf8.ValidString\<close>.\<close>

fun ValidString :: "string \<Rightarrow> bool" where
  "ValidString [] = True"
| "ValidString (b # bs) =
     (if (of_char b :: nat) < 0x80 then ValidString bs
      else rune_len (b # bs) \<noteq> 0 \<and> ValidString (drop (rune_len (b # bs) - 1) bs))"

datatype json =
    JNull
  | JNumber int
  | JString string
  | JArray "json list"
  | JObject "(string \<times> json) list"

definition omitempty_int :: "string \<Rightarrow> int \<Rightarrow> (string \<times> json) list" where
  "omitempty_int name v = (if v = 0 then [] else [(name, JNumber v)])"

definition omitempty_string :: "string \<Rightarrow> string \<Rightarrow> (string \<times> json) list" where
  "omitempty_string name v = (if v = [] then [] else [(name, JString (json_string_content v))])"

definition ProblemDetails_members :: "'a ProblemDetails_scheme \<Rightarrow> (string \<times> json) list" where
  "ProblemDetails_members pd =
     omitempty_int ''status'' (Status pd) @
     omitempty_string ''title'' (Title pd) @
     omitempty_string ''detail'' (Detail pd) @
     omitempty_string ''type'' (Type pd) @
     omitempty_string ''instance'' (Instance pd)"

definition ValidationError_json :: "ValidationError \<Rightarrow> json" where
  "ValidationError_json ve =
     JObject [(''name'', JString (json_string_content (FieldName ve))),
              (''reason'', JString (json_string_content (ErrorReason ve)))]"

definition ValidationProblem_members :: "ValidationProblem \<Rightarrow> (string \<times> json) list" where
  "ValidationProblem_members vp =
     ProblemDetails_members vp @
     (if ValidationErrors vp = [] then []
      else [(''invalid-params'', JArray (map ValidationError_json (ValidationErrors vp)))])"

text \<open>The values that satisfy the interface \<^verbatim>\<open>HTTPError\<close> (they have \<^verbatim>\<open>GetStatus\<close>), and
  the type-switch case that picks them out of an \<^verbatim>\<open>error\<close>.\<close>

datatype HTTPError = HTTPProblem addr | HTTPValidation addr

fun as_HTTPError :: "go_error \<Rightarrow> HTTPError option" where
  "as_HTTPError (ProblemPtr p) = Some (HTTPProblem p)"
| "as_HTTPError (ValidationPtr p) = Some (HTTPValidation p)"
| "as_HTTPError (ErrorString s) = None"
| "as_HTTPError (WrapError s e) = None"
| "as_HTTPError (WrapErrors s es) = None"

fun HTTPError_GetStatus :: "heap \<Rightarrow> HTTPError \<Rightarrow> abort + int" where
  "HTTPError_GetStatus h (HTTPProblem p) =
     (case problems h p of None \<Rightarrow> Inl NilDereference | Some pd \<Rightarrow> Inr (GetStatus pd))"
| "HTTPError_GetStatus h (HTTPValidation p) =
     (case validations h p of None \<Rightarrow> Inl NilDereference | Some vp \<Rightarrow> Inr (GetStatus vp))"

text \<open>Marshalling follows the pointer; a nil pointer is encoded as \<^verbatim>\<open>null\<close>.\<close>

fun Marshal :: "heap \<Rightarrow> HTTPError \<Rightarrow> json" where
  "Marshal h (HTTPProblem p) =
     (case problems h p of None \<Rightarrow> JNull | Some pd \<Rightarrow> JObject (ProblemDetails_members pd))"
| "Marshal h (HTTPValidation p) =
     (case validations h p of None \<Rightarrow> JNull | Some vp \<Rightarrow> JObject (ValidationProblem_members vp))"

subsection \<open>The response sink\<close>

text \<open>
  \<^verbatim>\<open>http.ResponseWriter\<close> is an interface; the model records the calls made on it, in order.
  \<^verbatim>\<open>Write\<close> on the sink returns an error, which the encoder hands on: \<open>write_results\<close> lists
  what the coming calls of \<^verbatim>\<open>Write\<close> will return, and a sink whose list is used up accepts
  every write (as \<^verbatim>\<open>httptest.ResponseRecorder\<close> does). A body is recorded as the JSON value
  handed to the sink, also when the sink reports an error for it. \<open>checks_code\<close> says whether
  \<^verbatim>\<open>WriteHeader\<close> of this sink panics for a code outside 100 to 999, as the writers of
  \<^verbatim>\<open>net/http\<close> and \<^verbatim>\<open>httptest.ResponseRecorder\<close> do. That a server keeps only the first
  status line is not modelled.
\<close>

datatype sink_call = CallHeaderSet string string | CallWriteHeader int | CallWrite json

record ResponseWriter =
  calls :: "sink_call list"
  write_results :: "go_error option list"
  checks_code :: bool

definition NewRecorder :: ResponseWriter where
  "NewRecorder = \<lparr>calls = [], write_results = [], checks_code = True\<rparr>"

definition Header_Set :: "ResponseWriter \<Rightarrow> string \<Rightarrow> string \<Rightarrow> ResponseWriter" where
  "Header_Set w key v = w\<lparr>calls := calls w @ [CallHeaderSet key v]\<rparr>"

definition WriteHeader :: "ResponseWriter \<Rightarrow> int \<Rightarrow> abort + ResponseWriter" where
  "WriteHeader w code =
    (if checks_code w \<and> (code < 100 \<or> 999 < code) then Inl (InvalidWriteHeaderCode code)
     else Inr (w\<lparr>calls := calls w @ [CallWriteHeader code]\<rparr>))"

text \<open>\<^verbatim>\<open>json.NewEncoder(w).Encode(v)\<close> makes one call of \<^verbatim>\<open>w.Write\<close> with the whole document
  and returns its error.\<close>

definition Encode :: "ResponseWriter \<Rightarrow> json \<Rightarrow> ResponseWriter \<times> go_error option" where
  "Encode w doc =
    (case write_results w of
       [] \<Rightarrow> (w\<lparr>calls := calls w @ [CallWrite doc]\<rparr>, None)
     | r # rs \<Rightarrow> (w\<lparr>calls := calls w @ [CallWrite doc], write_results := rs\<rparr>, r))"

text \<open>\<^verbatim>\<open>http.CanonicalHeaderKey("Content-Type")\<close> is \<^verbatim>\<open>"Content-Type"\<close>.\<close>

definition rawWrite :: "heap \<Rightarrow> ResponseWriter \<Rightarrow> HTTPError \<Rightarrow> abort + ResponseWriter \<times> go_error option" where
  "rawWrite h w obj =
    (let w1 = Header_Set w ''Content-Type'' ContentProblemDetails
     in case HTTPError_GetStatus h obj of
          Inl x \<Rightarrow> Inl x
        | Inr status \<Rightarrow>
           (case WriteHeader w1 status of
              Inl x \<Rightarrow> Inl x
            | Inr w2 \<Rightarrow> Inr (Encode w2 (Marshal h obj))))"

definition ProblemDetails_Write :: "heap \<Rightarrow> addr \<Rightarrow> ResponseWriter \<Rightarrow> abort + ResponseWriter \<times> go_error option" where
  "ProblemDetails_Write h pd w = rawWrite h w (HTTPProblem pd)"

subsection \<open>The non-fluent API\<close>

text \<open>
  The type switch of \<^verbatim>\<open>Write\<close> has a \<^verbatim>\<open>default\<close> branch for a value that is no \<^verbatim>\<open>error\<close>.
  To keep that branch, the value switched on is an \<open>operand\<close>: an \<^verbatim>\<open>error\<close>, or another
  value, of which only the name of the type is known (what \<^verbatim>\<open>%T\<close> prints). The parameter of
  \<^verbatim>\<open>Write\<close> has the static type \<^verbatim>\<open>error\<close>, so a Go caller can only pass \<open>ErrorValue\<close>.
\<close>

datatype operand = ErrorValue go_error | OtherValue string

fun operand_arg :: "operand \<Rightarrow> fmt_arg" where
  "operand_arg (ErrorValue e) = ArgError e"
| "operand_arg (OtherValue t) = ArgOther t"

definition Write :: "heap \<Rightarrow> ResponseWriter \<Rightarrow> operand option \<Rightarrow> abort + ResponseWriter \<times> go_error option" where
  "Write h w err =
    (case err of
       None \<Rightarrow> Inr (w, None)
     | Some v \<Rightarrow>
        (case v of
           ErrorValue r \<Rightarrow>
             (case as_HTTPError r of
                Some obj \<Rightarrow> rawWrite h w obj
              | None \<Rightarrow> Inr (w, Some r))
         | OtherValue t \<Rightarrow>
             (case fmt_Errorf h ''can't write non-error type %T'' [operand_arg v] of
                Inl x \<Rightarrow> Inl x
              | Inr e \<Rightarrow> Inr (w, Some e))))"


definition Errorf :: "heap \<Rightarrow> int \<Rightarrow> string \<Rightarrow> fmt_arg list \<Rightarrow> abort + heap \<times> addr" where
  "Errorf h status fmtstr args = (let (h1, pd) = New h status in ProblemDetails_Errorf h1 pd fmtstr args)"

definition Error :: "heap \<Rightarrow> ResponseWriter \<Rightarrow> string \<Rightarrow> int \<Rightarrow> abort + heap \<times> ResponseWriter \<times> go_error option" where
  "Error h w msg status =
    (let (h1, pd) = New h status
     in case WithDetail h1 pd msg of
          Inl x \<Rightarrow> Inl x
        | Inr (h2, pd2) \<Rightarrow>
           (case ProblemDetails_Write h2 pd2 w of
              Inl x \<Rightarrow> Inl x
            | Inr (w2, r) \<Rightarrow> Inr (h2, w2, r)))"

subsection \<open>The validation extension\<close>

definition alloc_validation :: "heap \<Rightarrow> ValidationProblem \<Rightarrow> heap \<times> addr" where
  "alloc_validation h obj =
    (h\<lparr>validations := (validations h)(next_addr h \<mapsto> obj), next_addr := Suc (next_addr h)\<rparr>, next_addr h)"

definition NewValidationProblem_literal :: ValidationProblem where
  "NewValidationProblem_literal =
    \<lparr>Status = StatusBadRequest,
     Title = [],
     Detail = ''Validation error'',
     Type = [],
     Instance = [],
     wrappedError = None,
     ValidationErrors = []\<rparr>"

definition NewValidationProblem :: "heap \<Rightarrow> heap \<times> addr" where
  "NewValidationProblem h = alloc_validation h NewValidationProblem_literal"

definition Add :: "heap \<Rightarrow> addr \<Rightarrow> string \<Rightarrow> string \<Rightarrow> abort + heap" where
  "Add h vp field errmsg =
    (case validations h vp of
       None \<Rightarrow> Inl NilDereference
     | Some obj \<Rightarrow>
        (let ve = \<lparr>FieldName = field, ErrorReason = errmsg\<rparr>
         in Inr (h\<lparr>validations := (validations h)(vp \<mapsto> obj\<lparr>ValidationErrors := ValidationErrors obj @ [ve]\<rparr>)\<rparr>)))"

subsection \<open>Reading a response back\<close>

text \<open>
  \<^verbatim>\<open>json.Unmarshal\<close> into a \<^verbatim>\<open>ProblemDetails\<close>, as the tests do with the recorded body, on
  the JSON value the body denotes: members are taken in order, a later one overriding an
  earlier one, unknown names are skipped, \<^verbatim>\<open>null\<close> leaves a field as it is, and a value of
  the wrong kind, or a number that does not fit Go's 64-bit \<^verbatim>\<open>int\<close>, is an error (\<open>None\<close>).
  A name matches a field when the two are equal under case folding: ASCII letters, and the
  two other letters that fold to ASCII ones, the long s (U+017F) and the Kelvin sign
  (U+212A). Numbers with a fraction or an exponent are not among the values modelled.
\<close>

definition zero_ProblemDetails :: ProblemDetails where
  "zero_ProblemDetails =
     \<lparr>Status = 0, Title = [], Detail = [], Type = [], Instance = [], wrappedError = None\<rparr>"

fun foldName :: "string \<Rightarrow> string" where
  "foldName [] = []"
| "foldName (c # cs) =
     (if in_range 0x61 0x7A c then
        (''ABCDEFGHIJKLMNOPQRSTUVWXYZ'' ! ((of_char c :: nat) - 0x61)) # foldName cs
      else if c = CHR 0xC5 \<and> take 1 cs = [CHR 0xBF] then CHR ''S'' # foldName (drop 1 cs)
      else if c = CHR 0xE2 \<and> take 2 cs = [CHR 0x84, CHR 0xAA] then CHR ''K'' # foldName (drop 2 cs)
      else c # foldName cs)"

definition fits_int :: "int \<Rightarrow> bool" where
  "fits_int n = (- (2 ^ 63) \<le> n \<and> n < 2 ^ 63)"

definition set_int :: "json \<Rightarrow> (int \<Rightarrow> ProblemDetails) \<Rightarrow> ProblemDetails \<Rightarrow> ProblemDetails option" where
  "set_int v upd old =
    (case v of
       JNumber n \<Rightarrow> if fits_int n then Some (upd n) else None
     | JNull \<Rightarrow> Some old
     | _ \<Rightarrow> None)"

definition set_string :: "json \<Rightarrow> (string \<Rightarrow> ProblemDetails) \<Rightarrow> ProblemDetails \<Rightarrow> ProblemDetails option" where
  "set_string v upd old = (case v of JString s \<Rightarrow> Some (upd s) | JNull \<Rightarrow> Some old | _ \<Rightarrow> None)"

definition decode_member :: "string \<times> json \<Rightarrow> ProblemDetails \<Rightarrow> ProblemDetails option" where
  "decode_member m pd =
    (let name = foldName (fst m); v = snd m
     in if name = ''STATUS'' then set_int v (\<lambda>n. pd\<lparr>Status := n\<rparr>) pd
        else if name = ''TITLE'' then set_string v (\<lambda>s. pd\<lparr>Title := s\<rparr>) pd
        else if name = ''DETAIL'' then set_string v (\<lambda>s. pd\<lparr>Detail := s\<rparr>) pd
        else if name = ''TYPE'' then set_string v (\<lambda>s. pd\<lparr>Type := s\<rparr>) pd
        else if name = ''INSTANCE'' then set_string v (\<lambda>s. pd\<lparr>Instance := s\<rparr>) pd
        else Some pd)"

fun decode_members :: "(string \<times> json) list \<Rightarrow> ProblemDetails \<Rightarrow> ProblemDetails option" where
  "decode_members [] pd = Some pd"
| "decode_members (m # ms) pd =
     (case decode_member m pd of None \<Rightarrow> None | Some pd1 \<Rightarrow> decode_members ms pd1)"

definition Unmarshal :: "json \<Rightarrow> ProblemDetails option" where
  "Unmarshal doc =
    (case doc of
       JObject ms \<Rightarrow> decode_members ms zero_ProblemDetails
     | JNull \<Rightarrow> Some zero_ProblemDetails
     | _ \<Rightarrow> None)"

subsection \<open>Title case\<close>

text \<open>\<^verbatim>\<open>strings.Title\<close> on ASCII text, with which the test of the catalog says what title
  case is: the first letter of every word is upper case, a word being a run of letters,
  digits and underscores.\<close>

definition is_lower :: "char \<Rightarrow> bool" where
  "is_lower c = (97 \<le> (of_char c :: nat) \<and> (of_char c :: nat) \<le> 122)"

definition is_upper :: "char \<Rightarrow> bool" where
  "is_upper c = (65 \<le> (of_char c :: nat) \<and> (of_char c :: nat) \<le> 90)"

definition is_digit :: "char \<Rightarrow> bool" where
  "is_digit c = (48 \<le> (of_char c :: nat) \<and> (of_char c :: nat) \<le> 57)"

definition isSeparator :: "char \<Rightarrow> bool" where
  "isSeparator r = (\<not> (is_digit r \<or> is_lower r \<or> is_upper r \<or> r = CHR ''_''))"

definition ToTitle :: "char \<Rightarrow> char" where
  "ToTitle r = (if is_lower r then ''ABCDEFGHIJKLMNOPQRSTUVWXYZ'' ! ((of_char r :: nat) - 97) else r)"

fun Title_from :: "char \<Rightarrow> string \<Rightarrow> string" where
  "Title_from prev [] = []"
| "Title_from prev (r # rs) = (if isSeparator prev then ToTitle r else r) # Title_from r rs"

definition strings_Title :: "string \<Rightarrow> string" where
  "strings_Title s = Title_from CHR '' '' s"

subsection \<open>Observing a run\<close>

text \<open>The store before anything is allocated; address 0 is never handed out, it is the nil
  pointer.\<close>

definition empty_heap :: heap where
  "empty_heap = \<lparr>problems = Map.empty, validations = Map.empty, next_addr = 1\<rparr>"

fun bodies :: "sink_call list \<Rightarrow> json list" where
  "bodies [] = []"
| "bodies (CallWrite doc # cs) = doc # bodies cs"
| "bodies (CallHeaderSet k v # cs) = bodies cs"
| "bodies (CallWriteHeader code # cs) = bodies cs"


text \<open>What the tests do with a recorder: read the body, which is one document when one was
  written, and unmarshal it.\<close>

definition Body_Unmarshal :: "ResponseWriter \<Rightarrow> ProblemDetails option" where
  "Body_Unmarshal w = (case bodies (calls w) of [doc] \<Rightarrow> Unmarshal doc | _ \<Rightarrow> None)"

definition writer_of :: "abort + heap \<times> ResponseWriter \<times> go_error option \<Rightarrow> ResponseWriter option" where
  "writer_of r = (case r of Inl x \<Rightarrow> None | Inr (h, w, e) \<Rightarrow> Some w)"

section \<open>Properties\<close>

subsection \<open>Decimal numerals\<close>

lemma digit_val_digit_char: "d < 10 \<Longrightarrow> digit_val (digit_char d) = d"
proof -
  assume "d < 10"
  then have "d \<in> {0, 1, 2, 3, 4, 5, 6, 7, 8, 9}" by auto
  then show ?thesis by (auto simp: digit_val_def digit_char_def)
qed

lemma digit_char_not_minus: "d < 10 \<Longrightarrow> digit_char d \<noteq> CHR ''-''"
proof -
  assume "d < 10"
  then have "d \<in> {0, 1, 2, 3, 4, 5, 6, 7, 8, 9}" by auto
  then show ?thesis by (auto simp: digit_char_def)
qed

lemma decimal_val_snoc: "decimal_val (s @ [c]) = 10 * decimal_val s + digit_val c"
  by (simp add: decimal_val_def)

lemma decimal_val_digits: "decimal_val (digits n) = n"
proof (induction n rule: digits.induct)
  case (1 n)
  show ?case
  proof (cases "n < 10")
    case True
    then show ?thesis
      by (subst digits.simps) (simp add: decimal_val_def digit_val_digit_char)
  next
    case False
    with 1 have "decimal_val (digits (n div 10)) = n div 10" by simp
    with False show ?thesis
      by (subst digits.simps) (simp add: decimal_val_snoc digit_val_digit_char)
  qed
qed

lemma hd_digits: "\<exists>c cs. digits n = c # cs \<and> c \<noteq> CHR ''-''"
proof (induction n rule: digits.induct)
  case (1 n)
  show ?case
  proof (cases "n < 10")
    case True
    then show ?thesis
      by (subst digits.simps) (simp add: digit_char_not_minus)
  next
    case False
    with 1 obtain c cs where "digits (n div 10) = c # cs" "c \<noteq> CHR ''-''" by auto
    with False show ?thesis
      by (subst digits.simps) simp
  qed
qed

lemma Atoi_Itoa: "Atoi (Itoa i) = i"
proof (cases "i < 0")
  case True
  then show ?thesis by (simp add: Atoi_def Itoa_def decimal_val_digits)
next
  case False
  obtain c cs where d: "digits (nat i) = c # cs" "c \<noteq> CHR ''-''"
    using hd_digits by blast
  have "int (decimal_val (digits (nat i))) = i"
    using False by (simp add: decimal_val_digits)
  with False d show ?thesis by (simp add: Atoi_def Itoa_def)
qed

lemma Itoa_inj: "Itoa i = Itoa j \<Longrightarrow> i = j"
  by (metis Atoi_Itoa)

lemma distinct_titles: "distinct (map snd typeForStatus_entries)"
  unfolding typeForStatus_entries_def by simp

lemma map_of_distinct_snd:
  "distinct (map snd xs) \<Longrightarrow> map_of xs a = Some v \<Longrightarrow> map_of xs b = Some v \<Longrightarrow> a = b"
proof (induction xs)
  case Nil
  then show ?case by simp
next
  case (Cons x xs)
  obtain k w where x: "x = (k, w)" by (cases x)
  from Cons.prems x have nin: "w \<notin> snd ` set xs" and dist: "distinct (map snd xs)" by auto
  have mem: "\<And>c. map_of xs c = Some w \<Longrightarrow> False"
    using nin by (metis map_of_SomeD image_eqI snd_conv)
  show ?case
  proof (cases "a = k")
    case True
    with Cons.prems x have "v = w" by simp
    with Cons.prems x True mem show ?thesis by (cases "b = k") auto
  next
    case False
    with Cons.prems x have a: "map_of xs a = Some v" by simp
    show ?thesis
    proof (cases "b = k")
      case True
      with Cons.prems x have "v = w" by simp
      with a mem show ?thesis by blast
    next
      case bk: False
      with Cons.prems x have "map_of xs b = Some v" by simp
      with a dist Cons.IH show ?thesis by blast
    qed
  qed
qed

lemma title_case_entries: "list_all (\<lambda>(s, t). s = 418 \<or> strings_Title t = t) typeForStatus_entries"
  unfolding typeForStatus_entries_def 
  by (simp add: strings_Title_def isSeparator_def ToTitle_def is_lower_def is_upper_def is_digit_def)

lemma title_case_covered:
  assumes "typeForStatus s = Some t" and "s \<noteq> 418"
  shows "strings_Title t = t"
proof -
  from assms(1) have "(s, t) \<in> set typeForStatus_entries"
    unfolding typeForStatus_def by (rule map_of_SomeD)
  with title_case_entries have "s = 418 \<or> strings_Title t = t"
    by (auto simp: list_all_iff)
  with assms(2) show ?thesis by simp
qed

subsection \<open>The constructor\<close>

text \<open>
  C4. For every integer status, \<^verbatim>\<open>New(status)\<close> returns (it cannot fail, whatever the code)
  the address of a new object whose status is the one given, whose title is the catalog's
  entry for it, the empty string where the catalog has none, and whose type is
  \<^verbatim>\<open>https://httpstatuses.com/\<close> followed by the decimal numeral of the status. The other
  fields are empty.
\<close>

theorem New_constructs:
  "\<exists>h' pd obj.
     New h status = (h', pd) \<and> problems h' pd = Some obj \<and>
     Status obj = status \<and>
     Title obj = (case typeForStatus status of None \<Rightarrow> [] | Some t \<Rightarrow> t) \<and>
     Type obj = ''https://httpstatuses.com/'' @ Itoa status \<and> Atoi (Itoa status) = status \<and>
     Detail obj = [] \<and> Instance obj = [] \<and> wrappedError obj = None"
  by (simp add: New_def alloc_problem_def New_literal_def typeForStatus_index_def Atoi_Itoa)

subsection \<open>The status catalog\<close>

text \<open>
  C5. Over the status codes the catalog covers, two different codes never get the same
  title nor the same type from the constructor, and every title is in title case
  (\<^verbatim>\<open>strings.Title\<close> leaves it as it is) but the one of 418, which is \<^verbatim>\<open>I'm a teapot\<close> as
  written and is not in title case.
\<close>

theorem catalog_unique_and_title_case:
  "(\<forall>s1 s2. s1 \<in> dom typeForStatus \<and> s2 \<in> dom typeForStatus \<and> s1 \<noteq> s2 \<longrightarrow>
       Title (New_literal s1) \<noteq> Title (New_literal s2) \<and>
       Type (New_literal s1) \<noteq> Type (New_literal s2)) \<and>
   (\<forall>s \<in> dom typeForStatus. s \<noteq> 418 \<longrightarrow>
       strings_Title (Title (New_literal s)) = Title (New_literal s)) \<and>
   Title (New_literal 418) = ''I'm a teapot'' \<and>
   strings_Title (Title (New_literal 418)) \<noteq> Title (New_literal 418)"
proof (intro conjI allI ballI impI)
  fix s1 s2 :: int
  assume a: "s1 \<in> dom typeForStatus \<and> s2 \<in> dom typeForStatus \<and> s1 \<noteq> s2"
  then obtain t1 t2 where t: "typeForStatus s1 = Some t1" "typeForStatus s2 = Some t2"
    by auto
  have "t1 \<noteq> t2"
  proof
    assume "t1 = t2"
    with t have "s1 = s2"
      unfolding typeForStatus_def using map_of_distinct_snd [OF distinct_titles] by blast
    with a show False by simp
  qed
  with t show "Title (New_literal s1) \<noteq> Title (New_literal s2)"
    by (simp add: New_literal_def typeForStatus_index_def)
  from a show "Type (New_literal s1) \<noteq> Type (New_literal s2)"
    by (auto simp: New_literal_def dest: Itoa_inj)
next
  fix s :: int
  assume "s \<in> dom typeForStatus" and ne: "s \<noteq> 418"
  then obtain t where t: "typeForStatus s = Some t" by auto
  from t ne have "strings_Title t = t" by (rule title_case_covered)
  with t show "strings_Title (Title (New_literal s)) = Title (New_literal s)"
    by (simp add: New_literal_def typeForStatus_index_def)
next
  show "Title (New_literal 418) = ''I'm a teapot''"
    by (simp add: New_literal_def typeForStatus_index_def typeForStatus_def typeForStatus_entries_def)
next
  show "strings_Title (Title (New_literal 418)) \<noteq> Title (New_literal 418)"
    by (simp add: New_literal_def typeForStatus_index_def typeForStatus_def typeForStatus_entries_def
        strings_Title_def isSeparator_def ToTitle_def is_lower_def is_upper_def is_digit_def)
qed

theorem catalog_unique_and_title_case_witness:
  "(404::int) \<in> dom typeForStatus \<and> (500::int) \<in> dom typeForStatus \<and> (404::int) \<noteq> 500 \<and>
   Title (New_literal 404) \<noteq> Title (New_literal 500) \<and>
   Type (New_literal 404) \<noteq> Type (New_literal 500) \<and>
   strings_Title (Title (New_literal 404)) = Title (New_literal 404) \<and>
   Title (New_literal 404) = ''Not Found''"
proof -
  have d1: "(404::int) \<in> dom typeForStatus"
    by (simp add: dom_def typeForStatus_def typeForStatus_entries_def)
  have d2: "(500::int) \<in> dom typeForStatus"
    by (simp add: dom_def typeForStatus_def typeForStatus_entries_def)
  have ne: "(404::int) \<noteq> 500" by simp
  have nf: "Title (New_literal 404) = ''Not Found''"
    by (simp add: New_literal_def typeForStatus_index_def typeForStatus_def typeForStatus_entries_def)
  from catalog_unique_and_title_case
  have u: "\<forall>s1 s2. s1 \<in> dom typeForStatus \<and> s2 \<in> dom typeForStatus \<and> s1 \<noteq> s2 \<longrightarrow>
       Title (New_literal s1) \<noteq> Title (New_literal s2) \<and>
       Type (New_literal s1) \<noteq> Type (New_literal s2)"
    and c: "\<forall>s \<in> dom typeForStatus. s \<noteq> 418 \<longrightarrow>
       strings_Title (Title (New_literal s)) = Title (New_literal s)"
    by blast+
  from u d1 d2 ne have "Title (New_literal 404) \<noteq> Title (New_literal 500) \<and>
       Type (New_literal 404) \<noteq> Type (New_literal 500)" by blast
  moreover from c d1 have "strings_Title (Title (New_literal 404)) = Title (New_literal 404)"
    by auto
  ultimately show ?thesis using d1 d2 ne nf by blast
qed

text \<open>
  C6. The catalog holds the two informal codes: 499 is \<^verbatim>\<open>Client Closed Request\<close>. The title
  it holds for 599 is \<^verbatim>\<open>Network Connect Timeout New\<close>, which is not
  \<^verbatim>\<open>Network Connect Timeout\<close>.
\<close>

theorem catalog_informal_codes:
  "typeForStatus 499 = Some ''Client Closed Request'' \<and>
   typeForStatus 599 = Some ''Network Connect Timeout New'' \<and>
   Title (New_literal 599) \<noteq> ''Network Connect Timeout''"
  by (simp add: typeForStatus_def typeForStatus_entries_def New_literal_def typeForStatus_index_def)

subsection \<open>Strings in a document\<close>

lemma ascii_content: "\<forall>c \<in> set s. (of_char c :: nat) < 0x80 \<Longrightarrow> json_string_content s = s"
  by (induction s) auto

lemma valid_content: "ValidString s \<Longrightarrow> json_string_content s = s"
proof (induction s rule: json_string_content.induct)
  case 1
  show ?case by simp
next
  case (2 b bs)
  show ?case
  proof (cases "(of_char b :: nat) < 0x80")
    case True
    with 2 show ?thesis by simp
  next
    case False
    with "2.prems" have n: "rune_len (b # bs) \<noteq> 0"
      and v: "ValidString (drop (rune_len (b # bs) - 1) bs)" by auto
    from "2.IH"(3) [OF False n v] False n show ?thesis by simp
  qed
qed

lemma digit_char_ascii: "d < 10 \<Longrightarrow> (of_char (digit_char d) :: nat) < 0x80"
proof -
  assume "d < 10"
  then have "d \<in> {0, 1, 2, 3, 4, 5, 6, 7, 8, 9}" by auto
  then show ?thesis by (auto simp: digit_char_def)
qed

lemma digits_ascii: "\<forall>c \<in> set (digits n). (of_char c :: nat) < 0x80"
proof (induction n rule: digits.induct)
  case (1 n)
  show ?case
  proof (cases "n < 10")
    case True
    then show ?thesis by (subst digits.simps) (simp add: digit_char_ascii)
  next
    case False
    with 1 have "\<forall>c \<in> set (digits (n div 10)). (of_char c :: nat) < 0x80" by simp
    with False show ?thesis by (subst digits.simps) (simp add: digit_char_ascii)
  qed
qed

lemma Itoa_ascii: "\<forall>c \<in> set (Itoa i). (of_char c :: nat) < 0x80"
  using digits_ascii by (simp add: Itoa_def)

lemma type_content:
  "json_string_content (''https://httpstatuses.com/'' @ Itoa status) = ''https://httpstatuses.com/'' @ Itoa status"
  by (rule ascii_content) (use Itoa_ascii in auto)

lemma titles_ascii_entries:
  "list_all (\<lambda>(s, t). list_all (\<lambda>c. (of_char c :: nat) < 0x80) t) typeForStatus_entries"
  unfolding typeForStatus_entries_def by simp

lemma title_content: "json_string_content (typeForStatus_index status) = typeForStatus_index status"
proof (cases "typeForStatus status")
  case None
  then show ?thesis by (simp add: typeForStatus_index_def)
next
  case (Some t)
  then have "(status, t) \<in> set typeForStatus_entries"
    unfolding typeForStatus_def by (rule map_of_SomeD)
  with titles_ascii_entries have "\<forall>c \<in> set t. (of_char c :: nat) < 0x80"
    by (auto simp: list_all_iff)
  then have "json_string_content t = t" by (rule ascii_content)
  with Some show ?thesis by (simp add: typeForStatus_index_def)
qed

subsection \<open>Captured causes\<close>

lemma New_empty_heap:
  "New empty_heap status =
     (\<lparr>problems = [1 \<mapsto> New_literal status], validations = Map.empty, next_addr = 2\<rparr>, 1)"
  by (simp add: New_def alloc_problem_def empty_heap_def)

lemma error_Error_upd:
  "problems h pd = Some obj \<Longrightarrow> Title obj' = Title obj \<Longrightarrow>
   error_Error (h\<lparr>problems := (problems h)(pd \<mapsto> obj')\<rparr>) e = error_Error h e"
  by (cases e) (auto simp: ProblemDetails_Error_def)

lemma WithErr_ok:
  assumes "problems h pd = Some obj" and "Detail obj = [] \<longrightarrow> error_Error h e = Inr msg"
  shows "\<exists>h'. WithErr h pd (Some e) = Inr (h', pd) \<and>
           problems h' pd =
             Some (obj\<lparr>wrappedError := Some e,
                       Detail := (if Detail obj = [] then msg else Detail obj)\<rparr>) \<and>
           errors_Unwrap h' (ProblemPtr pd) = Inr (Some e) \<and>
           (\<forall>q. q \<noteq> pd \<longrightarrow> problems h' q = problems h q) \<and>
           validations h' = validations h"
proof (cases "Detail obj = []")
  case True
  with assms have m: "error_Error h e = Inr msg" by simp
  have "error_Error (h\<lparr>problems := (problems h)(pd \<mapsto> obj\<lparr>wrappedError := Some e\<rparr>)\<rparr>) e = Inr msg"
    using assms(1) m by (simp add: error_Error_upd)
  with assms(1) True show ?thesis
    by (simp add: WithErr_def Let_def Unwrap_def)
next
  case False
  with assms(1) show ?thesis
    by (simp add: WithErr_def Let_def Unwrap_def)
qed

lemma WithErr_message_panics:
  assumes "problems h pd = Some obj" and "Detail obj = []" and "error_Error h e = Inl x"
  shows "WithErr h pd (Some e) = Inl x"
proof -
  have "error_Error (h\<lparr>problems := (problems h)(pd \<mapsto> obj\<lparr>wrappedError := Some e\<rparr>)\<rparr>) e = Inl x"
    using assms(1,3) by (simp add: error_Error_upd)
  with assms(1,2) show ?thesis by (simp add: WithErr_def Let_def)
qed

text \<open>
  C7, as stated, fails for the nil error: on a problem whose detail is empty,
  \<^verbatim>\<open>WithErr(nil)\<close> asks nil for its message and panics.
\<close>

theorem WithErr_nil_counterexample:
  "WithErr (fst (New empty_heap 500)) 1 None = Inl NilDereference"
  by (simp add: New_empty_heap WithErr_def Let_def New_literal_def)

text \<open>
  C7, amended. For every problem object and every non-nil error \<open>e\<close>, \<^verbatim>\<open>WithErr(e)\<close> stores
  \<open>e\<close> as the wrapped cause, so that unwrapping the problem afterwards gives \<open>e\<close>; if the
  detail is empty at the call it becomes the message of \<open>e\<close>, and a detail that is not empty
  is kept; the call returns the address it was called on, and no other object changes.
  Where the detail is empty and the \<^verbatim>\<open>Error\<close> method of \<open>e\<close> panics (a nil pointer inside the
  interface), the call panics. \<^verbatim>\<open>WithErr(nil)\<close> on a problem whose detail is not empty clears
  the cause, keeps the detail and returns the same address; on a problem whose detail is
  empty it panics. Called through a pointer that holds no object it panics.
\<close>

theorem WithErr_captures_cause:
  "(problems h pd = None \<longrightarrow> WithErr h pd err = Inl NilDereference) \<and>
   (\<forall>obj. problems h pd = Some obj \<longrightarrow>
      (\<forall>e msg. (Detail obj = [] \<longrightarrow> error_Error h e = Inr msg) \<longrightarrow>
         (\<exists>h'. WithErr h pd (Some e) = Inr (h', pd) \<and>
            problems h' pd =
              Some (obj\<lparr>wrappedError := Some e,
                        Detail := (if Detail obj = [] then msg else Detail obj)\<rparr>) \<and>
            errors_Unwrap h' (ProblemPtr pd) = Inr (Some e) \<and>
            (\<forall>q. q \<noteq> pd \<longrightarrow> problems h' q = problems h q) \<and>
            validations h' = validations h)) \<and>
      (\<forall>e x. Detail obj = [] \<and> error_Error h e = Inl x \<longrightarrow> WithErr h pd (Some e) = Inl x) \<and>
      (Detail obj \<noteq> [] \<longrightarrow>
         (\<exists>h'. WithErr h pd None = Inr (h', pd) \<and>
            problems h' pd = Some (obj\<lparr>wrappedError := None\<rparr>) \<and>
            errors_Unwrap h' (ProblemPtr pd) = Inr None \<and>
            (\<forall>q. q \<noteq> pd \<longrightarrow> problems h' q = problems h q) \<and>
            validations h' = validations h)) \<and>
      (Detail obj = [] \<longrightarrow> WithErr h pd None = Inl NilDereference))"
proof (intro conjI allI impI)
  assume "problems h pd = None"
  then show "WithErr h pd err = Inl NilDereference" by (simp add: WithErr_def)
next
  fix obj e msg
  assume "problems h pd = Some obj" and "Detail obj = [] \<longrightarrow> error_Error h e = Inr msg"
  then show "\<exists>h'. WithErr h pd (Some e) = Inr (h', pd) \<and>
            problems h' pd =
              Some (obj\<lparr>wrappedError := Some e,
                        Detail := (if Detail obj = [] then msg else Detail obj)\<rparr>) \<and>
            errors_Unwrap h' (ProblemPtr pd) = Inr (Some e) \<and>
            (\<forall>q. q \<noteq> pd \<longrightarrow> problems h' q = problems h q) \<and>
            validations h' = validations h"
    by (rule WithErr_ok)
next
  fix obj e x
  assume "problems h pd = Some obj" and "Detail obj = [] \<and> error_Error h e = Inl x"
  then show "WithErr h pd (Some e) = Inl x" by (simp add: WithErr_message_panics)
next
  fix obj
  assume "problems h pd = Some obj" and "Detail obj \<noteq> []"
  then show "\<exists>h'. WithErr h pd None = Inr (h', pd) \<and>
            problems h' pd = Some (obj\<lparr>wrappedError := None\<rparr>) \<and>
            errors_Unwrap h' (ProblemPtr pd) = Inr None \<and>
            (\<forall>q. q \<noteq> pd \<longrightarrow> problems h' q = problems h q) \<and>
            validations h' = validations h"
    by (simp add: WithErr_def Let_def Unwrap_def)
next
  fix obj
  assume "problems h pd = Some obj" and "Detail obj = []"
  then show "WithErr h pd None = Inl NilDereference" by (simp add: WithErr_def Let_def)
qed

theorem WithErr_captures_cause_witness:
  "problems (fst (New empty_heap 500)) 1 = Some (New_literal 500) \<and>
   Detail (New_literal 500) = [] \<and>
   error_Error (fst (New empty_heap 500)) (ErrorString ''disk full'') = Inr ''disk full'' \<and>
   (\<exists>h'. WithErr (fst (New empty_heap 500)) 1 (Some (ErrorString ''disk full'')) = Inr (h', 1) \<and>
         problems h' 1 =
           Some ((New_literal 500)\<lparr>wrappedError := Some (ErrorString ''disk full''),
                                     Detail := ''disk full''\<rparr>) \<and>
         errors_Unwrap h' (ProblemPtr 1) = Inr (Some (ErrorString ''disk full''))) \<and>
   error_Error (fst (New empty_heap 500)) (ProblemPtr 0) = Inl NilDereference \<and>
   WithErr (fst (New empty_heap 500)) 1 (Some (ProblemPtr 0)) = Inl NilDereference \<and>
   WithErr (fst (New empty_heap 500)) 1 None = Inl NilDereference \<and>
   problems (fst (New empty_heap 500)) 0 = None \<and>
   WithErr (fst (New empty_heap 500)) 0 (Some (ErrorString ''disk full'')) = Inl NilDereference"
proof -
  let ?h = "fst (New empty_heap 500)"
  have p: "problems ?h 1 = Some (New_literal 500)"
    by (simp add: New_empty_heap)
  have p0: "problems ?h 0 = None" by (simp add: New_empty_heap)
  have d: "Detail (New_literal 500) = []" by (simp add: New_literal_def)
  have m: "Detail (New_literal 500) = [] \<longrightarrow> error_Error ?h (ErrorString ''disk full'') = Inr ''disk full''"
    by simp
  have n: "Detail (New_literal 500) = [] \<and> error_Error ?h (ProblemPtr 0) = Inl NilDereference"
    using d by (simp add: New_empty_heap)
  note t = WithErr_captures_cause [of ?h 1]
  from t have a: "\<forall>obj. problems ?h 1 = Some obj \<longrightarrow>
      (\<forall>e msg. (Detail obj = [] \<longrightarrow> error_Error ?h e = Inr msg) \<longrightarrow>
         (\<exists>h'. WithErr ?h 1 (Some e) = Inr (h', 1) \<and>
            problems h' 1 =
              Some (obj\<lparr>wrappedError := Some e,
                        Detail := (if Detail obj = [] then msg else Detail obj)\<rparr>) \<and>
            errors_Unwrap h' (ProblemPtr 1) = Inr (Some e) \<and>
            (\<forall>q. q \<noteq> 1 \<longrightarrow> problems h' q = problems ?h q) \<and>
            validations h' = validations ?h)) \<and>
      (\<forall>e x. Detail obj = [] \<and> error_Error ?h e = Inl x \<longrightarrow> WithErr ?h 1 (Some e) = Inl x) \<and>
      (Detail obj = [] \<longrightarrow> WithErr ?h 1 None = Inl NilDereference)"
    by blast
  from a [rule_format, OF p] have
    a1: "\<forall>e msg. (Detail (New_literal 500) = [] \<longrightarrow> error_Error ?h e = Inr msg) \<longrightarrow>
         (\<exists>h'. WithErr ?h 1 (Some e) = Inr (h', 1) \<and>
            problems h' 1 =
              Some ((New_literal 500)\<lparr>wrappedError := Some e,
                        Detail := (if Detail (New_literal 500) = [] then msg else Detail (New_literal 500))\<rparr>) \<and>
            errors_Unwrap h' (ProblemPtr 1) = Inr (Some e))"
    and a2: "\<forall>e x. Detail (New_literal 500) = [] \<and> error_Error ?h e = Inl x \<longrightarrow> WithErr ?h 1 (Some e) = Inl x"
    and a3: "Detail (New_literal 500) = [] \<longrightarrow> WithErr ?h 1 None = Inl NilDereference"
    by blast+
  from a1 [THEN spec, THEN spec, THEN mp, OF m] d
  have 1: "\<exists>h'. WithErr ?h 1 (Some (ErrorString ''disk full'')) = Inr (h', 1) \<and>
         problems h' 1 =
           Some ((New_literal 500)\<lparr>wrappedError := Some (ErrorString ''disk full''),
                                     Detail := ''disk full''\<rparr>) \<and>
         errors_Unwrap h' (ProblemPtr 1) = Inr (Some (ErrorString ''disk full''))"
    by simp
  from a2 [rule_format, OF n] have 2: "WithErr ?h 1 (Some (ProblemPtr 0)) = Inl NilDereference" .
  from a3 d have 3: "WithErr ?h 1 None = Inl NilDereference" by simp
  from WithErr_captures_cause [of ?h 0 "Some (ErrorString ''disk full'')"] p0
  have 4: "WithErr ?h 0 (Some (ErrorString ''disk full'')) = Inl NilDereference" by blast
  from p d 1 2 3 4 n p0 show ?thesis by simp
qed

subsection \<open>Formatting a detail\<close>



















subsection \<open>Writing a response\<close>

lemma rawWrite_ok:
  assumes "HTTPError_GetStatus h obj = Inr st"
    and "\<not> (checks_code w \<and> (st < 100 \<or> 999 < st))"
  shows "\<exists>w'. rawWrite h w obj = Inr (w', case write_results w of [] \<Rightarrow> None | r # rs \<Rightarrow> r) \<and>
           calls w' = calls w @ [CallHeaderSet ''Content-Type'' ''application/problem+json'',
                                 CallWriteHeader st, CallWrite (Marshal h obj)] \<and>
           write_results w' = tl (write_results w) \<and> checks_code w' = checks_code w"
  using assms
  by (auto simp: rawWrite_def Header_Set_def WriteHeader_def Encode_def ContentProblemDetails_def
      split: list.splits)

lemma rawWrite_invalid_code:
  assumes "HTTPError_GetStatus h obj = Inr st" and "checks_code w \<and> (st < 100 \<or> 999 < st)"
  shows "rawWrite h w obj = Inl (InvalidWriteHeaderCode st)"
  using assms by (auto simp: rawWrite_def Header_Set_def WriteHeader_def)

lemma rawWrite_nil:
  assumes "HTTPError_GetStatus h obj = Inl x"
  shows "rawWrite h w obj = Inl x"
  using assms by (simp add: rawWrite_def)

lemma fmt_Errorf_non_error:
  "fmt_Errorf h ''can't write non-error type %T'' [ArgOther t] =
     Inr (ErrorString (''can't write non-error type '' @ t))"
  by (simp add: fmt_Errorf_def format_verb_def emit_def)

lemma Marshal_New_404:
  "Marshal (fst (New empty_heap 404)) (HTTPProblem 1) =
      JObject [(''status'', JNumber 404), (''title'', JString ''Not Found''),
               (''type'', JString ''https://httpstatuses.com/404'')]"
  by (simp add: New_empty_heap New_literal_def ProblemDetails_members_def omitempty_int_def
      omitempty_string_def typeForStatus_index_def typeForStatus_def typeForStatus_entries_def
      Itoa_def digits.simps digit_char_def)

text \<open>
  C1. The dispatch \<^verbatim>\<open>Write(w, err)\<close>: with nil it makes no call on the sink and returns nil;
  with a value that has a status it is \<^verbatim>\<open>rawWrite\<close> of that value, which sets the content
  type, writes the status line and the body, and returns what the sink returned for the
  body, nil when the sink accepted it (it panics instead where the value is a nil pointer,
  and where the sink refuses the status code); with an error that has no status it returns
  that error as it is and makes no call on the sink; with a value that is no error it
  returns an error whose message names the type of the value, and makes no call on the
  sink.
\<close>

theorem Write_dispatch:
  "Write h w None = Inr (w, None) \<and>
   (\<forall>r obj. as_HTTPError r = Some obj \<longrightarrow>
      Write h w (Some (ErrorValue r)) = rawWrite h w obj \<and>
      (\<forall>x. HTTPError_GetStatus h obj = Inl x \<longrightarrow> Write h w (Some (ErrorValue r)) = Inl x) \<and>
      (\<forall>st. HTTPError_GetStatus h obj = Inr st \<longrightarrow>
         (if checks_code w \<and> (st < 100 \<or> 999 < st)
          then Write h w (Some (ErrorValue r)) = Inl (InvalidWriteHeaderCode st)
          else (\<exists>w'. Write h w (Some (ErrorValue r)) =
                  Inr (w', case write_results w of [] \<Rightarrow> None | x # xs \<Rightarrow> x) \<and>
               calls w' = calls w @ [CallHeaderSet ''Content-Type'' ''application/problem+json'',
                                     CallWriteHeader st, CallWrite (Marshal h obj)])))) \<and>
   (\<forall>r. as_HTTPError r = None \<longrightarrow> Write h w (Some (ErrorValue r)) = Inr (w, Some r)) \<and>
   (\<forall>t. Write h w (Some (OtherValue t)) =
          Inr (w, Some (ErrorString (''can't write non-error type '' @ t))))"
proof (intro conjI allI impI)
  show "Write h w None = Inr (w, None)" by (simp add: Write_def)
next
  fix r obj assume "as_HTTPError r = Some obj"
  then show "Write h w (Some (ErrorValue r)) = rawWrite h w obj" by (simp add: Write_def)
next
  fix r obj x assume "as_HTTPError r = Some obj" and "HTTPError_GetStatus h obj = Inl x"
  then show "Write h w (Some (ErrorValue r)) = Inl x" by (simp add: Write_def rawWrite_nil)
next
  fix r obj st assume a: "as_HTTPError r = Some obj" and s: "HTTPError_GetStatus h obj = Inr st"
  from a have wr: "Write h w (Some (ErrorValue r)) = rawWrite h w obj" by (simp add: Write_def)
  show "if checks_code w \<and> (st < 100 \<or> 999 < st)
          then Write h w (Some (ErrorValue r)) = Inl (InvalidWriteHeaderCode st)
          else (\<exists>w'. Write h w (Some (ErrorValue r)) =
                  Inr (w', case write_results w of [] \<Rightarrow> None | x # xs \<Rightarrow> x) \<and>
               calls w' = calls w @ [CallHeaderSet ''Content-Type'' ''application/problem+json'',
                                     CallWriteHeader st, CallWrite (Marshal h obj)])"
  proof (cases "checks_code w \<and> (st < 100 \<or> 999 < st)")
    case True
    with wr rawWrite_invalid_code [OF s True] show ?thesis by simp
  next
    case False
    with wr rawWrite_ok [OF s False] show ?thesis by auto
  qed
next
  fix r assume "as_HTTPError r = None"
  then show "Write h w (Some (ErrorValue r)) = Inr (w, Some r)" by (simp add: Write_def)
next
  fix t show "Write h w (Some (OtherValue t)) =
          Inr (w, Some (ErrorString (''can't write non-error type '' @ t)))"
    by (simp add: Write_def fmt_Errorf_non_error)
qed

theorem Write_dispatch_witness:
  "as_HTTPError (ProblemPtr 1) = Some (HTTPProblem 1) \<and>
   HTTPError_GetStatus (fst (New empty_heap 404)) (HTTPProblem 1) = Inr 404 \<and>
   (\<exists>w'. Write (fst (New empty_heap 404)) NewRecorder (Some (ErrorValue (ProblemPtr 1))) = Inr (w', None) \<and>
         calls w' = [CallHeaderSet ''Content-Type'' ''application/problem+json'',
                     CallWriteHeader 404,
                     CallWrite (JObject [(''status'', JNumber 404), (''title'', JString ''Not Found''),
                                         (''type'', JString ''https://httpstatuses.com/404'')])]) \<and>
   as_HTTPError (ErrorString ''This is not a problem report'') = None \<and>
   Write (fst (New empty_heap 404)) NewRecorder (Some (ErrorValue (ErrorString ''This is not a problem report''))) =
     Inr (NewRecorder, Some (ErrorString ''This is not a problem report'')) \<and>
   as_HTTPError (ProblemPtr 0) = Some (HTTPProblem 0) \<and>
   HTTPError_GetStatus (fst (New empty_heap 404)) (HTTPProblem 0) = Inl NilDereference \<and>
   Write (fst (New empty_heap 404)) NewRecorder (Some (ErrorValue (ProblemPtr 0))) = Inl NilDereference \<and>
   HTTPError_GetStatus (fst (New empty_heap 5)) (HTTPProblem 1) = Inr 5 \<and>
   Write (fst (New empty_heap 5)) NewRecorder (Some (ErrorValue (ProblemPtr 1))) =
     Inl (InvalidWriteHeaderCode 5)"
proof -
  let ?h = "fst (New empty_heap 404)"
  let ?h5 = "fst (New empty_heap 5)"
  have a: "as_HTTPError (ProblemPtr 1) = Some (HTTPProblem 1)" by simp
  have a0: "as_HTTPError (ProblemPtr 0) = Some (HTTPProblem 0)" by simp
  have g: "HTTPError_GetStatus ?h (HTTPProblem 1) = Inr 404"
    by (simp add: New_empty_heap GetStatus_def New_literal_def)
  have g0: "HTTPError_GetStatus ?h (HTTPProblem 0) = Inl NilDereference"
    by (simp add: New_empty_heap)
  have g5: "HTTPError_GetStatus ?h5 (HTTPProblem 1) = Inr 5"
    by (simp add: New_empty_heap GetStatus_def New_literal_def)
  have b: "as_HTTPError (ErrorString ''This is not a problem report'') = None" by simp
  note m = Marshal_New_404
  from Write_dispatch [of ?h NewRecorder]
  have 1: "\<forall>r obj. as_HTTPError r = Some obj \<longrightarrow>
      (\<forall>x. HTTPError_GetStatus ?h obj = Inl x \<longrightarrow> Write ?h NewRecorder (Some (ErrorValue r)) = Inl x) \<and>
      (\<forall>st. HTTPError_GetStatus ?h obj = Inr st \<longrightarrow>
         (if checks_code NewRecorder \<and> (st < 100 \<or> 999 < st)
          then Write ?h NewRecorder (Some (ErrorValue r)) = Inl (InvalidWriteHeaderCode st)
          else (\<exists>w'. Write ?h NewRecorder (Some (ErrorValue r)) =
                  Inr (w', case write_results NewRecorder of [] \<Rightarrow> None | x # xs \<Rightarrow> x) \<and>
               calls w' = calls NewRecorder @ [CallHeaderSet ''Content-Type'' ''application/problem+json'',
                                     CallWriteHeader st, CallWrite (Marshal ?h obj)])))"
    and 2: "\<forall>r. as_HTTPError r = None \<longrightarrow> Write ?h NewRecorder (Some (ErrorValue r)) = Inr (NewRecorder, Some r)"
    by blast+
  from 1 [rule_format, OF a] g
  have "if checks_code NewRecorder \<and> ((404::int) < 100 \<or> (999::int) < 404)
          then Write ?h NewRecorder (Some (ErrorValue (ProblemPtr 1))) = Inl (InvalidWriteHeaderCode 404)
          else (\<exists>w'. Write ?h NewRecorder (Some (ErrorValue (ProblemPtr 1))) =
                  Inr (w', case write_results NewRecorder of [] \<Rightarrow> None | x # xs \<Rightarrow> x) \<and>
               calls w' = calls NewRecorder @ [CallHeaderSet ''Content-Type'' ''application/problem+json'',
                                     CallWriteHeader 404, CallWrite (Marshal ?h (HTTPProblem 1))])"
    by blast
  then have 3: "\<exists>w'. Write ?h NewRecorder (Some (ErrorValue (ProblemPtr 1))) = Inr (w', None) \<and>
         calls w' = [CallHeaderSet ''Content-Type'' ''application/problem+json'',
                     CallWriteHeader 404,
                     CallWrite (JObject [(''status'', JNumber 404), (''title'', JString ''Not Found''),
                                         (''type'', JString ''https://httpstatuses.com/404'')])]"
    unfolding m by (simp add: NewRecorder_def)
  from 1 [rule_format, OF a0] g0
  have 4: "Write ?h NewRecorder (Some (ErrorValue (ProblemPtr 0))) = Inl NilDereference" by blast
  from Write_dispatch [of ?h5 NewRecorder]
  have "\<forall>r obj. as_HTTPError r = Some obj \<longrightarrow>
      (\<forall>st. HTTPError_GetStatus ?h5 obj = Inr st \<longrightarrow>
         (if checks_code NewRecorder \<and> (st < 100 \<or> 999 < st)
          then Write ?h5 NewRecorder (Some (ErrorValue r)) = Inl (InvalidWriteHeaderCode st)
          else (\<exists>w'. Write ?h5 NewRecorder (Some (ErrorValue r)) =
                  Inr (w', case write_results NewRecorder of [] \<Rightarrow> None | x # xs \<Rightarrow> x) \<and>
               calls w' = calls NewRecorder @ [CallHeaderSet ''Content-Type'' ''application/problem+json'',
                                     CallWriteHeader st, CallWrite (Marshal ?h5 obj)])))"
    by blast
  from this [rule_format, OF a] g5
  have "if checks_code NewRecorder \<and> ((5::int) < 100 \<or> (999::int) < 5)
          then Write ?h5 NewRecorder (Some (ErrorValue (ProblemPtr 1))) = Inl (InvalidWriteHeaderCode 5)
          else (\<exists>w'. Write ?h5 NewRecorder (Some (ErrorValue (ProblemPtr 1))) =
                  Inr (w', case write_results NewRecorder of [] \<Rightarrow> None | x # xs \<Rightarrow> x) \<and>
               calls w' = calls NewRecorder @ [CallHeaderSet ''Content-Type'' ''application/problem+json'',
                                     CallWriteHeader 5, CallWrite (Marshal ?h5 (HTTPProblem 1))])"
    by blast
  then have 5: "Write ?h5 NewRecorder (Some (ErrorValue (ProblemPtr 1))) = Inl (InvalidWriteHeaderCode 5)"
    by (simp add: NewRecorder_def)
  from 2 [rule_format, OF b] a g b 3 a0 g0 4 g5 5 show ?thesis by blast
qed

subsection \<open>Reading back what was written\<close>

lemma foldName_fields:
  "foldName ''status'' = ''STATUS''" "foldName ''title'' = ''TITLE''"
  "foldName ''detail'' = ''DETAIL''" "foldName ''type'' = ''TYPE''"
  "foldName ''instance'' = ''INSTANCE''"
  by (simp_all add: in_range_def)

lemma decode_members_append:
  "decode_members (xs @ ys) pd =
     (case decode_members xs pd of None \<Rightarrow> None | Some pd1 \<Rightarrow> decode_members ys pd1)"
  by (induction xs arbitrary: pd) (auto split: option.splits)

lemma decode_status:
  "fits_int v \<Longrightarrow> Status pd = 0 \<Longrightarrow>
   decode_members (omitempty_int ''status'' v) pd = Some (pd\<lparr>Status := v\<rparr>)"
  by (simp add: omitempty_int_def decode_member_def set_int_def foldName_fields in_range_def)

lemma decode_title:
  "Title pd = [] \<Longrightarrow>
   decode_members (omitempty_string ''title'' v) pd = Some (pd\<lparr>Title := json_string_content v\<rparr>)"
  by (simp add: omitempty_string_def decode_member_def set_string_def foldName_fields in_range_def)

lemma decode_detail:
  "Detail pd = [] \<Longrightarrow>
   decode_members (omitempty_string ''detail'' v) pd = Some (pd\<lparr>Detail := json_string_content v\<rparr>)"
  by (simp add: omitempty_string_def decode_member_def set_string_def foldName_fields in_range_def)

lemma decode_type:
  "Type pd = [] \<Longrightarrow>
   decode_members (omitempty_string ''type'' v) pd = Some (pd\<lparr>Type := json_string_content v\<rparr>)"
  by (simp add: omitempty_string_def decode_member_def set_string_def foldName_fields in_range_def)

lemma decode_instance:
  "Instance pd = [] \<Longrightarrow>
   decode_members (omitempty_string ''instance'' v) pd = Some (pd\<lparr>Instance := json_string_content v\<rparr>)"
  by (simp add: omitempty_string_def decode_member_def set_string_def foldName_fields in_range_def)

lemma Unmarshal_members:
  "fits_int (Status pd) \<Longrightarrow>
   Unmarshal (JObject (ProblemDetails_members pd)) =
     Some \<lparr>Status = Status pd, Title = json_string_content (Title pd),
           Detail = json_string_content (Detail pd), Type = json_string_content (Type pd),
           Instance = json_string_content (Instance pd), wrappedError = None\<rparr>"
  by (simp add: Unmarshal_def ProblemDetails_members_def decode_members_append
      decode_status decode_title decode_detail decode_type decode_instance zero_ProblemDetails_def)

lemma titles_nonempty_entries: "list_all (\<lambda>(s, t). t \<noteq> []) typeForStatus_entries"
  unfolding typeForStatus_entries_def by simp

lemma typeForStatus_index_nonempty: "typeForStatus_index status \<noteq> [] \<longleftrightarrow> status \<in> dom typeForStatus"
proof (cases "typeForStatus status")
  case None
  then show ?thesis by (simp add: typeForStatus_index_def dom_def)
next
  case (Some t)
  then have "(status, t) \<in> set typeForStatus_entries"
    unfolding typeForStatus_def by (rule map_of_SomeD)
  with titles_nonempty_entries have "t \<noteq> []" by (auto simp: list_all_iff)
  with Some show ?thesis by (auto simp: typeForStatus_index_def)
qed

lemma fits_int_code: "100 \<le> status \<Longrightarrow> status \<le> 999 \<Longrightarrow> fits_int status"
  by (simp add: fits_int_def)

lemma Unmarshal_New_literal:
  assumes "fits_int status"
  shows "Unmarshal (JObject (ProblemDetails_members ((New_literal status)\<lparr>wrappedError := c, Detail := msg\<rparr>))) =
     Some \<lparr>Status = status, Title = typeForStatus_index status, Detail = json_string_content msg,
           Type = ''https://httpstatuses.com/'' @ Itoa status, Instance = [], wrappedError = None\<rparr>"
proof -
  let ?obj = "(New_literal status)\<lparr>wrappedError := c, Detail := msg\<rparr>"
  have f: "Status ?obj = status" "Title ?obj = typeForStatus_index status" "Detail ?obj = msg"
    "Type ?obj = ''https://httpstatuses.com/'' @ Itoa status" "Instance ?obj = []"
    by (simp_all add: New_literal_def)
  from assms have "fits_int (Status ?obj)" by (simp only: f)
  from Unmarshal_members [OF this] show ?thesis
    by (simp only: f title_content type_content json_string_content.simps)
qed

lemma Error_written:
  assumes "100 \<le> status" and "status \<le> 999"
  shows "\<exists>h' w'.
     Error h w msg status = Inr (h', w', case write_results w of [] \<Rightarrow> None | r # rs \<Rightarrow> r) \<and>
     (\<exists>doc. calls w' = calls w @ [CallHeaderSet ''Content-Type'' ''application/problem+json'',
                           CallWriteHeader status, CallWrite doc] \<and>
        Unmarshal doc =
          Some \<lparr>Status = status, Title = typeForStatus_index status,
                Detail = json_string_content msg,
                Type = ''https://httpstatuses.com/'' @ Itoa status, Instance = [],
                wrappedError = None\<rparr>)"
proof -
  let ?p = "next_addr h"
  let ?obj = "(New_literal status)\<lparr>wrappedError := None, Detail := msg\<rparr>"
  obtain h1 where n: "New h status = (h1, ?p)" and p1: "problems h1 ?p = Some (New_literal status)"
    by (simp add: New_def alloc_problem_def)
  obtain h2 where wd: "WithDetail h1 ?p msg = Inr (h2, ?p)" and p2: "problems h2 ?p = Some ?obj"
    using p1 by (simp add: WithDetail_def New_literal_def)
  have g: "HTTPError_GetStatus h2 (HTTPProblem ?p) = Inr status"
    using p2 by (simp add: GetStatus_def New_literal_def)
  from assms have t: "\<not> (checks_code w \<and> (status < 100 \<or> 999 < status))" by simp
  have m: "Marshal h2 (HTTPProblem ?p) = JObject (ProblemDetails_members ?obj)"
    using p2 by simp
  from rawWrite_ok [OF g t] obtain w' where
    rw: "rawWrite h2 w (HTTPProblem ?p) = Inr (w', case write_results w of [] \<Rightarrow> None | r # rs \<Rightarrow> r)"
    and c: "calls w' = calls w @ [CallHeaderSet ''Content-Type'' ''application/problem+json'',
                                 CallWriteHeader status, CallWrite (Marshal h2 (HTTPProblem ?p))]"
    by blast
  have e: "Error h w msg status = Inr (h2, w', case write_results w of [] \<Rightarrow> None | r # rs \<Rightarrow> r)"
    using n wd rw by (simp add: Error_def ProblemDetails_Write_def)
  from assms have "fits_int status" by (rule fits_int_code)
  note u = Unmarshal_New_literal [OF this, where c = None and msg = msg]
  from c have c': "calls w' = calls w @ [CallHeaderSet ''Content-Type'' ''application/problem+json'',
                                 CallWriteHeader status, CallWrite (JObject (ProblemDetails_members ?obj))]"
    by (simp only: m)
  from e c' u show ?thesis by blast
qed

lemma Error_invalid_code:
  assumes "checks_code w \<and> (status < 100 \<or> 999 < status)"
  shows "Error h w msg status = Inl (InvalidWriteHeaderCode status)"
proof -
  let ?p = "next_addr h"
  obtain h1 where n: "New h status = (h1, ?p)" and p1: "problems h1 ?p = Some (New_literal status)"
    by (simp add: New_def alloc_problem_def)
  obtain h2 where wd: "WithDetail h1 ?p msg = Inr (h2, ?p)"
    and p2: "problems h2 ?p = Some ((New_literal status)\<lparr>Detail := msg\<rparr>)"
    using p1 by (simp add: WithDetail_def)
  have g: "HTTPError_GetStatus h2 (HTTPProblem ?p) = Inr status"
    using p2 by (simp add: GetStatus_def New_literal_def)
  from rawWrite_invalid_code [OF g assms] n wd show ?thesis
    by (simp add: Error_def ProblemDetails_Write_def)
qed

lemma content_E9: "json_string_content [CHR 0xE9] = [CHR 0xEF, CHR 0xBF, CHR 0xBD]"
  by (simp add: rune_len_def lead_size_def in_range_def replacement_char_def)

lemma title_200: "typeForStatus_index 200 = []"
  by (simp add: typeForStatus_index_def typeForStatus_def typeForStatus_entries_def)

text \<open>
  C3, as stated, fails in three ways. Where the catalog has no title: a problem built with
  status 200 and the detail \<^verbatim>\<open>No such page\<close>, written to a recorder and read back, has an
  empty title. Where the detail is not valid UTF-8: the detail that is the one byte 0xE9
  reads back as U+FFFD. Where the recorder refuses the status: with status 5 the write
  panics.
\<close>

theorem Error_round_trip_counterexample:
  "map_option (map_option Title \<circ> Body_Unmarshal)
     (writer_of (Error empty_heap NewRecorder ''No such page'' 200)) = Some (Some []) \<and>
   map_option (map_option Detail \<circ> Body_Unmarshal)
     (writer_of (Error empty_heap NewRecorder [CHR 0xE9] 404)) = Some (Some [CHR 0xEF, CHR 0xBF, CHR 0xBD]) \<and>
   Error empty_heap NewRecorder ''No such page'' 5 = Inl (InvalidWriteHeaderCode 5)"
proof (intro conjI)
  have r: "(100::int) \<le> 200" "(200::int) \<le> 999" by simp_all
  from Error_written [OF r, of empty_heap NewRecorder "''No such page''"]
  obtain h' w' doc where "Error empty_heap NewRecorder ''No such page'' 200 =
       Inr (h', w', case write_results NewRecorder of [] \<Rightarrow> None | r # rs \<Rightarrow> r)"
    and "calls w' = calls NewRecorder @ [CallHeaderSet ''Content-Type'' ''application/problem+json'',
                           CallWriteHeader 200, CallWrite doc]"
    and "Unmarshal doc =
          Some \<lparr>Status = 200, Title = typeForStatus_index 200,
                Detail = json_string_content ''No such page'',
                Type = ''https://httpstatuses.com/'' @ Itoa 200, Instance = [],
                wrappedError = None\<rparr>"
    by blast
  then show "map_option (map_option Title \<circ> Body_Unmarshal)
     (writer_of (Error empty_heap NewRecorder ''No such page'' 200)) = Some (Some [])"
    by (simp add: writer_of_def NewRecorder_def Body_Unmarshal_def title_200)
next
  have r: "(100::int) \<le> 404" "(404::int) \<le> 999" by simp_all
  from Error_written [OF r, of empty_heap NewRecorder "[CHR 0xE9]"]
  obtain h' w' doc where "Error empty_heap NewRecorder [CHR 0xE9] 404 =
       Inr (h', w', case write_results NewRecorder of [] \<Rightarrow> None | r # rs \<Rightarrow> r)"
    and "calls w' = calls NewRecorder @ [CallHeaderSet ''Content-Type'' ''application/problem+json'',
                           CallWriteHeader 404, CallWrite doc]"
    and "Unmarshal doc =
          Some \<lparr>Status = 404, Title = typeForStatus_index 404,
                Detail = json_string_content [CHR 0xE9],
                Type = ''https://httpstatuses.com/'' @ Itoa 404, Instance = [],
                wrappedError = None\<rparr>"
    by blast
  then show "map_option (map_option Detail \<circ> Body_Unmarshal)
     (writer_of (Error empty_heap NewRecorder [CHR 0xE9] 404)) = Some (Some [CHR 0xEF, CHR 0xBF, CHR 0xBD])"
    by (simp add: writer_of_def NewRecorder_def Body_Unmarshal_def content_E9 del: json_string_content.simps)
next
  show "Error empty_heap NewRecorder ''No such page'' 5 = Inl (InvalidWriteHeaderCode 5)"
    by (rule Error_invalid_code) (simp add: NewRecorder_def)
qed

text \<open>
  C3, amended. For every status from 100 to 999 and every detail string,
  \<^verbatim>\<open>Error(w, msg, status)\<close> (the constructor, \<^verbatim>\<open>WithDetail\<close>, \<^verbatim>\<open>Write\<close>) sets the content type
  to \<^verbatim>\<open>application/problem+json\<close>, writes the status as the status line, and writes one
  body which, unmarshalled, has the same status, the type
  \<^verbatim>\<open>https://httpstatuses.com/\<close> followed by the status, the catalog's title for the status
  (not empty exactly when the catalog covers the status), and as detail the string
  supplied with every byte that is not valid UTF-8 replaced by U+FFFD: the exact detail
  when the string is valid UTF-8. On a sink that checks the code, a status outside 100 to
  999 makes the call panic.
\<close>

theorem Error_round_trip:
  "(checks_code w \<and> (status < 100 \<or> 999 < status) \<longrightarrow>
      Error h w msg status = Inl (InvalidWriteHeaderCode status)) \<and>
   (100 \<le> status \<and> status \<le> 999 \<longrightarrow>
      (\<exists>h' w' r doc pd.
         Error h w msg status = Inr (h', w', r) \<and>
         calls w' = calls w @ [CallHeaderSet ''Content-Type'' ''application/problem+json'',
                               CallWriteHeader status, CallWrite doc] \<and>
         Unmarshal doc = Some pd \<and>
         Status pd = status \<and>
         Detail pd = json_string_content msg \<and>
         (ValidString msg \<longrightarrow> Detail pd = msg) \<and>
         Type pd = ''https://httpstatuses.com/'' @ Itoa status \<and> Type pd \<noteq> [] \<and>
         Title pd = typeForStatus_index status \<and>
         (Title pd \<noteq> [] \<longleftrightarrow> status \<in> dom typeForStatus)))"
proof (intro conjI impI)
  assume "checks_code w \<and> (status < 100 \<or> 999 < status)"
  then show "Error h w msg status = Inl (InvalidWriteHeaderCode status)"
    by (rule Error_invalid_code)
next
  assume ok: "100 \<le> status \<and> status \<le> 999"
  let ?pd = "\<lparr>Status = status, Title = typeForStatus_index status,
                Detail = json_string_content msg,
                Type = ''https://httpstatuses.com/'' @ Itoa status, Instance = [],
                wrappedError = None\<rparr>"
  from ok Error_written [of status h w msg] obtain h' w' doc where
    e: "Error h w msg status = Inr (h', w', case write_results w of [] \<Rightarrow> None | r # rs \<Rightarrow> r)"
    and c: "calls w' = calls w @ [CallHeaderSet ''Content-Type'' ''application/problem+json'',
                           CallWriteHeader status, CallWrite doc]"
    and u: "Unmarshal doc = Some ?pd"
    by blast
  show "\<exists>h' w' r doc pd.
         Error h w msg status = Inr (h', w', r) \<and>
         calls w' = calls w @ [CallHeaderSet ''Content-Type'' ''application/problem+json'',
                               CallWriteHeader status, CallWrite doc] \<and>
         Unmarshal doc = Some pd \<and>
         Status pd = status \<and>
         Detail pd = json_string_content msg \<and>
         (ValidString msg \<longrightarrow> Detail pd = msg) \<and>
         Type pd = ''https://httpstatuses.com/'' @ Itoa status \<and> Type pd \<noteq> [] \<and>
         Title pd = typeForStatus_index status \<and>
         (Title pd \<noteq> [] \<longleftrightarrow> status \<in> dom typeForStatus)"
  proof (rule exI [of _ h'], rule exI [of _ w'],
      rule exI [of _ "case write_results w of [] \<Rightarrow> None | r # rs \<Rightarrow> r"],
      rule exI [of _ doc], rule exI [of _ ?pd], intro conjI impI)
    show "Error h w msg status = Inr (h', w', case write_results w of [] \<Rightarrow> None | r # rs \<Rightarrow> r)"
      by (rule e)
    show "calls w' = calls w @ [CallHeaderSet ''Content-Type'' ''application/problem+json'',
            CallWriteHeader status, CallWrite doc]" by (rule c)
    show "Unmarshal doc = Some ?pd" by (rule u)
    show "Status ?pd = status" by simp
    show "Detail ?pd = json_string_content msg" by simp
    show "Detail ?pd = msg" if "ValidString msg" using that by (simp add: valid_content)
    show "Type ?pd = ''https://httpstatuses.com/'' @ Itoa status" by simp
    show "Type ?pd \<noteq> []" by simp
    show "Title ?pd = typeForStatus_index status" by simp
    show "(Title ?pd \<noteq> []) = (status \<in> dom typeForStatus)"
      by (simp add: typeForStatus_index_nonempty)
  qed
qed

theorem Error_round_trip_witness:
  "(100::int) \<le> 404 \<and> (404::int) \<le> 999 \<and> ValidString ''No such page'' \<and>
   (404::int) \<in> dom typeForStatus \<and>
   (\<exists>h' w' r doc pd.
     Error empty_heap NewRecorder ''No such page'' 404 = Inr (h', w', r) \<and>
     calls w' = [CallHeaderSet ''Content-Type'' ''application/problem+json'',
                 CallWriteHeader 404, CallWrite doc] \<and>
     Unmarshal doc = Some pd \<and>
     Status pd = 404 \<and> Detail pd = ''No such page'' \<and> Type pd \<noteq> [] \<and> Title pd \<noteq> []) \<and>
   checks_code NewRecorder \<and> (5::int) < 100 \<and>
   Error empty_heap NewRecorder ''No such page'' 5 = Inl (InvalidWriteHeaderCode 5)"
proof -
  have d: "(404::int) \<in> dom typeForStatus"
    by (simp add: dom_def typeForStatus_def typeForStatus_entries_def)
  have v: "ValidString ''No such page''" by simp
  have r: "(100::int) \<le> 404 \<and> (404::int) \<le> 999" by simp
  have b: "checks_code NewRecorder \<and> ((5::int) < 100 \<or> (999::int) < 5)" by (simp add: NewRecorder_def)
  have c0: "calls NewRecorder = []" by (simp add: NewRecorder_def)
  from Error_round_trip [where w = NewRecorder and status = 404 and h = empty_heap and msg = "''No such page''"] r
  obtain h' w' r doc pd where
         "Error empty_heap NewRecorder ''No such page'' 404 = Inr (h', w', r)"
         "calls w' = calls NewRecorder @ [CallHeaderSet ''Content-Type'' ''application/problem+json'',
                               CallWriteHeader 404, CallWrite doc]"
         "Unmarshal doc = Some pd"
         "Status pd = 404"
         "ValidString ''No such page'' \<longrightarrow> Detail pd = ''No such page''"
         "Type pd \<noteq> []"
         "(Title pd \<noteq> []) = ((404::int) \<in> dom typeForStatus)"
    by blast
  with v d c0 have 1: "\<exists>h' w' r doc pd.
     Error empty_heap NewRecorder ''No such page'' 404 = Inr (h', w', r) \<and>
     calls w' = [CallHeaderSet ''Content-Type'' ''application/problem+json'',
                 CallWriteHeader 404, CallWrite doc] \<and>
     Unmarshal doc = Some pd \<and>
     Status pd = 404 \<and> Detail pd = ''No such page'' \<and> Type pd \<noteq> [] \<and> Title pd \<noteq> []"
    by (metis append_Nil)
  from Error_round_trip [where w = NewRecorder and status = 5 and h = empty_heap and msg = "''No such page''"] b
  have 2: "Error empty_heap NewRecorder ''No such page'' 5 = Inl (InvalidWriteHeaderCode 5)" by blast
  from r v d 1 2 b show ?thesis by simp
qed

subsection \<open>\<^verbatim>\<open>MustWrite\<close>\<close>







subsection \<open>Validation problems\<close>

lemma Add_appends:
  assumes "validations h vp = Some obj"
  shows "Add h vp field errmsg =
           Inr (h\<lparr>validations := (validations h)(vp \<mapsto>
                  obj\<lparr>ValidationErrors := ValidationErrors obj @ [\<lparr>FieldName = field, ErrorReason = errmsg\<rparr>]\<rparr>)\<rparr>)"
  using assms by (simp add: Add_def)

text \<open>
  C9. \<^verbatim>\<open>NewValidationProblem()\<close> returns a new object with status 400, the detail
  \<^verbatim>\<open>Validation error\<close> and no field errors. \<^verbatim>\<open>Add(field, reason)\<close> appends one entry at the
  end of the list, whatever the list holds already. After two calls of \<^verbatim>\<open>Add\<close> on a new
  validation problem, writing it gives the status line 400 and a body whose
  \<^verbatim>\<open>invalid-params\<close> member has exactly the two entries, in the order added, each with its
  own name and reason (as the encoder writes strings).
\<close>

theorem ValidationProblem_two_field_errors:
  "(\<exists>h1 vp. NewValidationProblem h = (h1, vp) \<and>
       validations h1 vp =
         Some \<lparr>Status = 400, Title = [], Detail = ''Validation error'', Type = [], Instance = [],
               wrappedError = None, ValidationErrors = []\<rparr>) \<and>
   (\<forall>vp obj field errmsg. validations h vp = Some obj \<longrightarrow>
      (\<exists>h'. Add h vp field errmsg = Inr h' \<and>
         validations h' vp =
           Some (obj\<lparr>ValidationErrors :=
                       ValidationErrors obj @ [\<lparr>FieldName = field, ErrorReason = errmsg\<rparr>]\<rparr>))) \<and>
   (\<exists>h1 vp h2 h3 w'.
      NewValidationProblem h = (h1, vp) \<and>
      Add h1 vp f1 r1 = Inr h2 \<and>
      Add h2 vp f2 r2 = Inr h3 \<and>
      Write h3 w (Some (ErrorValue (ValidationPtr vp))) =
        Inr (w', case write_results w of [] \<Rightarrow> None | x # xs \<Rightarrow> x) \<and>
      calls w' = calls w @
        [CallHeaderSet ''Content-Type'' ''application/problem+json'',
         CallWriteHeader 400,
         CallWrite (JObject
           [(''status'', JNumber 400),
            (''detail'', JString ''Validation error''),
            (''invalid-params'',
               JArray [JObject [(''name'', JString (json_string_content f1)),
                                (''reason'', JString (json_string_content r1))],
                       JObject [(''name'', JString (json_string_content f2)),
                                (''reason'', JString (json_string_content r2))]])])])"
proof (intro conjI allI impI)
  show "\<exists>h1 vp. NewValidationProblem h = (h1, vp) \<and>
       validations h1 vp =
         Some \<lparr>Status = 400, Title = [], Detail = ''Validation error'', Type = [], Instance = [],
               wrappedError = None, ValidationErrors = []\<rparr>"
    by (simp add: NewValidationProblem_def alloc_validation_def NewValidationProblem_literal_def
        StatusBadRequest_def)
next
  fix vp obj field errmsg assume "validations h vp = Some obj"
  then show "\<exists>h'. Add h vp field errmsg = Inr h' \<and>
         validations h' vp =
           Some (obj\<lparr>ValidationErrors :=
                       ValidationErrors obj @ [\<lparr>FieldName = field, ErrorReason = errmsg\<rparr>]\<rparr>)"
    by (simp add: Add_appends)
next
  let ?vp = "next_addr h"
  obtain h1 where n: "NewValidationProblem h = (h1, ?vp)"
    and v1: "validations h1 ?vp = Some NewValidationProblem_literal"
    by (simp add: NewValidationProblem_def alloc_validation_def)
  let ?o2 = "NewValidationProblem_literal\<lparr>ValidationErrors := [\<lparr>FieldName = f1, ErrorReason = r1\<rparr>]\<rparr>"
  let ?o3 = "NewValidationProblem_literal\<lparr>ValidationErrors :=
               [\<lparr>FieldName = f1, ErrorReason = r1\<rparr>, \<lparr>FieldName = f2, ErrorReason = r2\<rparr>]\<rparr>"
  obtain h2 where a1: "Add h1 ?vp f1 r1 = Inr h2" and v2: "validations h2 ?vp = Some ?o2"
    using v1 by (simp add: Add_appends NewValidationProblem_literal_def)
  obtain h3 where a2: "Add h2 ?vp f2 r2 = Inr h3" and v3: "validations h3 ?vp = Some ?o3"
    using v2 by (simp add: Add_appends NewValidationProblem_literal_def)
  have g: "HTTPError_GetStatus h3 (HTTPValidation ?vp) = Inr 400"
    using v3 by (simp add: GetStatus_def NewValidationProblem_literal_def StatusBadRequest_def)
  have t: "\<not> (checks_code w \<and> ((400::int) < 100 \<or> (999::int) < 400))" by simp
  have m: "Marshal h3 (HTTPValidation ?vp) =
      JObject [(''status'', JNumber 400), (''detail'', JString ''Validation error''),
               (''invalid-params'',
                  JArray [JObject [(''name'', JString (json_string_content f1)),
                                   (''reason'', JString (json_string_content r1))],
                          JObject [(''name'', JString (json_string_content f2)),
                                   (''reason'', JString (json_string_content r2))]])]"
    using v3 by (simp add: ValidationProblem_members_def ProblemDetails_members_def
        omitempty_int_def omitempty_string_def ValidationError_json_def
        NewValidationProblem_literal_def StatusBadRequest_def)
  from rawWrite_ok [OF g t] obtain w' where
    rw: "rawWrite h3 w (HTTPValidation ?vp) = Inr (w', case write_results w of [] \<Rightarrow> None | r # rs \<Rightarrow> r)"
    and c: "calls w' = calls w @ [CallHeaderSet ''Content-Type'' ''application/problem+json'',
                                 CallWriteHeader 400, CallWrite (Marshal h3 (HTTPValidation ?vp))]"
    by blast
  have wr: "Write h3 w (Some (ErrorValue (ValidationPtr ?vp))) =
              Inr (w', case write_results w of [] \<Rightarrow> None | x # xs \<Rightarrow> x)"
    using rw by (simp add: Write_def)
  show "\<exists>h1 vp h2 h3 w'.
      NewValidationProblem h = (h1, vp) \<and>
      Add h1 vp f1 r1 = Inr h2 \<and>
      Add h2 vp f2 r2 = Inr h3 \<and>
      Write h3 w (Some (ErrorValue (ValidationPtr vp))) =
        Inr (w', case write_results w of [] \<Rightarrow> None | x # xs \<Rightarrow> x) \<and>
      calls w' = calls w @
        [CallHeaderSet ''Content-Type'' ''application/problem+json'',
         CallWriteHeader 400,
         CallWrite (JObject
           [(''status'', JNumber 400),
            (''detail'', JString ''Validation error''),
            (''invalid-params'',
               JArray [JObject [(''name'', JString (json_string_content f1)),
                                (''reason'', JString (json_string_content r1))],
                       JObject [(''name'', JString (json_string_content f2)),
                                (''reason'', JString (json_string_content r2))]])])]"
    using n a1 a2 wr c unfolding m by blast
qed

theorem ValidationProblem_two_field_errors_witness:
  "validations (fst (NewValidationProblem empty_heap)) 1 = Some NewValidationProblem_literal \<and>
   (\<exists>h'. Add (fst (NewValidationProblem empty_heap)) 1 ''email'' ''Must be a valid e-mail address'' = Inr h' \<and>
      validations h' 1 =
        Some (NewValidationProblem_literal\<lparr>ValidationErrors :=
                [\<lparr>FieldName = ''email'', ErrorReason = ''Must be a valid e-mail address''\<rparr>]\<rparr>)) \<and>
   (\<exists>h1 vp h2 h3 w'.
      NewValidationProblem empty_heap = (h1, vp) \<and>
      Add h1 vp ''email'' ''Must be a valid e-mail address'' = Inr h2 \<and>
      Add h2 vp ''name'' ''You must provide your name'' = Inr h3 \<and>
      Write h3 NewRecorder (Some (ErrorValue (ValidationPtr vp))) = Inr (w', None) \<and>
      calls w' =
        [CallHeaderSet ''Content-Type'' ''application/problem+json'',
         CallWriteHeader 400,
         CallWrite (JObject
           [(''status'', JNumber 400),
            (''detail'', JString ''Validation error''),
            (''invalid-params'',
               JArray [JObject [(''name'', JString ''email''),
                                (''reason'', JString ''Must be a valid e-mail address'')],
                       JObject [(''name'', JString ''name''),
                                (''reason'', JString ''You must provide your name'')]])])])"
proof -
  let ?h = "fst (NewValidationProblem empty_heap)"
  have v: "validations ?h 1 = Some NewValidationProblem_literal"
    by (simp add: NewValidationProblem_def alloc_validation_def empty_heap_def)
  from ValidationProblem_two_field_errors [of ?h]
  have "\<forall>vp obj field errmsg. validations ?h vp = Some obj \<longrightarrow>
      (\<exists>h'. Add ?h vp field errmsg = Inr h' \<and>
         validations h' vp =
           Some (obj\<lparr>ValidationErrors :=
                       ValidationErrors obj @ [\<lparr>FieldName = field, ErrorReason = errmsg\<rparr>]\<rparr>))"
    by blast
  from this [rule_format, OF v, of "''email''" "''Must be a valid e-mail address''"]
  have 1: "\<exists>h'. Add ?h 1 ''email'' ''Must be a valid e-mail address'' = Inr h' \<and>
      validations h' 1 =
        Some (NewValidationProblem_literal\<lparr>ValidationErrors :=
                [\<lparr>FieldName = ''email'', ErrorReason = ''Must be a valid e-mail address''\<rparr>]\<rparr>)"
    by (simp add: NewValidationProblem_literal_def)
  have c: "json_string_content ''email'' = ''email''"
    "json_string_content ''Must be a valid e-mail address'' = ''Must be a valid e-mail address''"
    "json_string_content ''name'' = ''name''"
    "json_string_content ''You must provide your name'' = ''You must provide your name''"
    by (rule ascii_content, simp)+
  from ValidationProblem_two_field_errors
    [of empty_heap "''email''" "''Must be a valid e-mail address''" "''name''"
      "''You must provide your name''" NewRecorder]
  have "\<exists>h1 vp h2 h3 w'.
      NewValidationProblem empty_heap = (h1, vp) \<and>
      Add h1 vp ''email'' ''Must be a valid e-mail address'' = Inr h2 \<and>
      Add h2 vp ''name'' ''You must provide your name'' = Inr h3 \<and>
      Write h3 NewRecorder (Some (ErrorValue (ValidationPtr vp))) =
        Inr (w', case write_results NewRecorder of [] \<Rightarrow> None | x # xs \<Rightarrow> x) \<and>
      calls w' = calls NewRecorder @
        [CallHeaderSet ''Content-Type'' ''application/problem+json'',
         CallWriteHeader 400,
         CallWrite (JObject
           [(''status'', JNumber 400),
            (''detail'', JString ''Validation error''),
            (''invalid-params'',
               JArray [JObject [(''name'', JString (json_string_content ''email'')),
                                (''reason'', JString (json_string_content ''Must be a valid e-mail address''))],
                       JObject [(''name'', JString (json_string_content ''name'')),
                                (''reason'', JString (json_string_content ''You must provide your name''))]])])]"
    by blast
  then have 2: "\<exists>h1 vp h2 h3 w'.
      NewValidationProblem empty_heap = (h1, vp) \<and>
      Add h1 vp ''email'' ''Must be a valid e-mail address'' = Inr h2 \<and>
      Add h2 vp ''name'' ''You must provide your name'' = Inr h3 \<and>
      Write h3 NewRecorder (Some (ErrorValue (ValidationPtr vp))) = Inr (w', None) \<and>
      calls w' =
        [CallHeaderSet ''Content-Type'' ''application/problem+json'',
         CallWriteHeader 400,
         CallWrite (JObject
           [(''status'', JNumber 400),
            (''detail'', JString ''Validation error''),
            (''invalid-params'',
               JArray [JObject [(''name'', JString ''email''),
                                (''reason'', JString ''Must be a valid e-mail address'')],
                       JObject [(''name'', JString ''name''),
                                (''reason'', JString ''You must provide your name'')]])])]"
    unfolding c by (simp add: NewRecorder_def)
  from v 1 2 show ?thesis by blast
qed

text \<open>
  C10. \<^verbatim>\<open>NewValidationProblem()\<close> sets the status and the detail only: title and type are
  empty, so the \<^verbatim>\<open>Error()\<close> message of the object is the empty string and its JSON has the
  members \<^verbatim>\<open>status\<close> and \<^verbatim>\<open>detail\<close> and no others. A problem built by \<^verbatim>\<open>New\<close> always
  has the member \<^verbatim>\<open>type\<close>, and has the member \<^verbatim>\<open>title\<close>, which is also its \<^verbatim>\<open>Error()\<close> message,
  when the catalog covers its status.
\<close>

theorem NewValidationProblem_title_and_type_empty:
  "(\<exists>h1 vp obj.
      NewValidationProblem h = (h1, vp) \<and> validations h1 vp = Some obj \<and>
      Status obj = 400 \<and> Detail obj = ''Validation error'' \<and> Title obj = [] \<and> Type obj = [] \<and>
      error_Error h1 (ValidationPtr vp) = Inr [] \<and>
      Marshal h1 (HTTPValidation vp) =
        JObject [(''status'', JNumber 400), (''detail'', JString ''Validation error'')]) \<and>
   (\<exists>h2 pd ms.
      New h status = (h2, pd) \<and>
      error_Error h2 (ProblemPtr pd) = Inr (typeForStatus_index status) \<and>
      Marshal h2 (HTTPProblem pd) = JObject ms \<and>
      map_of ms ''type'' = Some (JString (''https://httpstatuses.com/'' @ Itoa status)) \<and>
      map_of ms ''title'' =
        (if status \<in> dom typeForStatus then Some (JString (typeForStatus_index status)) else None))"
proof (intro conjI)
  show "\<exists>h1 vp obj.
      NewValidationProblem h = (h1, vp) \<and> validations h1 vp = Some obj \<and>
      Status obj = 400 \<and> Detail obj = ''Validation error'' \<and> Title obj = [] \<and> Type obj = [] \<and>
      error_Error h1 (ValidationPtr vp) = Inr [] \<and>
      Marshal h1 (HTTPValidation vp) =
        JObject [(''status'', JNumber 400), (''detail'', JString ''Validation error'')]"
    by (simp add: NewValidationProblem_def alloc_validation_def NewValidationProblem_literal_def
        StatusBadRequest_def ProblemDetails_Error_def ValidationProblem_members_def
        ProblemDetails_members_def omitempty_int_def omitempty_string_def)
next
  have t: "typeForStatus_index status = [] \<longleftrightarrow> status \<notin> dom typeForStatus"
    using typeForStatus_index_nonempty [of status] by blast
  let ?ms = "ProblemDetails_members (New_literal status)"
  have ty: "map_of ?ms ''type'' = Some (JString (''https://httpstatuses.com/'' @ Itoa status))"
    using type_content [of status]
    by (simp add: New_literal_def ProblemDetails_members_def omitempty_int_def omitempty_string_def
        del: json_string_content.simps)
  have ti: "map_of ?ms ''title'' =
        (if status \<in> dom typeForStatus then Some (JString (typeForStatus_index status)) else None)"
    using t title_content [of status]
    by (simp add: New_literal_def ProblemDetails_members_def omitempty_int_def omitempty_string_def
        del: json_string_content.simps)
  have "New h status = (fst (New h status), next_addr h) \<and>
      error_Error (fst (New h status)) (ProblemPtr (next_addr h)) = Inr (typeForStatus_index status) \<and>
      Marshal (fst (New h status)) (HTTPProblem (next_addr h)) = JObject ?ms"
    by (simp add: New_def alloc_problem_def ProblemDetails_Error_def New_literal_def)
  with ty ti show "\<exists>h2 pd ms.
      New h status = (h2, pd) \<and>
      error_Error h2 (ProblemPtr pd) = Inr (typeForStatus_index status) \<and>
      Marshal h2 (HTTPProblem pd) = JObject ms \<and>
      map_of ms ''type'' = Some (JString (''https://httpstatuses.com/'' @ Itoa status)) \<and>
      map_of ms ''title'' =
        (if status \<in> dom typeForStatus then Some (JString (typeForStatus_index status)) else None)"
    by blast
qed

end
